theory Spec2Isabelle
  imports Main "HOL-Library.AList"
begin

section \<open>Python values and port objects\<close>

text \<open>
  The module \<^verbatim>\<open>plumpy/ports.py\<close> is dynamically typed: every attribute of a port can hold
  any Python object. The embedding therefore keeps one type \<open>pyval\<close> of Python values and
  stores attributes as such values.

  \<^item> \<open>PDict\<close> is a dictionary taken by value (string keys, insertion order kept).
  \<^item> \<open>PRef a\<close> is a reference to the mutable dictionary object held at address \<open>a\<close> of the
    store; it is used where a dictionary is shared between a caller and a method.
  \<^item> \<open>PType\<close> is a class object, \<open>PFunc\<close> a callable named by an identifier and resolved in
    an environment, \<open>PPort\<close> a port object.
\<close>

type_synonym addr = nat
type_synonym vid = nat

datatype pytype =
    TObject | TNoneType | TBool | TInt | TStr | TTuple | TDict | TType | TFunction
  | TValueSpec | TPort | TInputPort | TOutputPort | TPortNamespace

datatype py_error =
    ValueError | TypeError | AttributeError | AssertionError | KeyError | RuntimeError

datatype pyval =
    PNone
  | PBool bool
  | PInt int
  | PStr string
  | PTuple "pyval list"
  | PDict "(string \<times> pyval) list"
  | PRef addr
  | PType pytype
  | PFunc vid
  | PPort port
and port =
    InputPort (port_name: pyval) (port_valid_type: pyval) (port_help: pyval)
              (port_required: pyval) (port_validator: pyval) (port_default: pyval)
  | OutputPort (port_name: pyval) (port_valid_type: pyval) (port_help: pyval)
               (port_required: pyval) (port_validator: pyval)
  | PortNamespace (port_name: pyval) (port_valid_type: pyval) (port_help: pyval)
                  (port_required: pyval) (port_validator: pyval) (port_default: pyval)
                  (port_dynamic: pyval) (port_ports: "(string \<times> port) list")

type_synonym dict = "(string \<times> pyval) list"
type_synonym store = "dict list"

text \<open>Validators are callables supplied by the user: functions, or classes such as
  \<^verbatim>\<open>int\<close> and \<^verbatim>\<open>bool\<close>. An environment maps a callable object, the store and the argument
  list to the returned value or the raised exception. Callables are taken to be pure:
  they read their arguments and the store and change neither.\<close>

type_synonym env = "pyval \<Rightarrow> store \<Rightarrow> pyval list \<Rightarrow> py_error + pyval"

text \<open>\<^verbatim>\<open>UNSPECIFIED = ()\<close>: the sentinel is the empty tuple. CPython has one empty tuple
  object, so \<^verbatim>\<open>value is UNSPECIFIED\<close> holds exactly for the empty tuple.\<close>

definition UNSPECIFIED :: pyval where
  "UNSPECIFIED = PTuple []"

definition is_UNSPECIFIED :: "pyval \<Rightarrow> bool" where
  "is_UNSPECIFIED v = (v = UNSPECIFIED)"

definition deref :: "store \<Rightarrow> addr \<Rightarrow> dict" where
  "deref h a = (if a < length h then h ! a else [])"

definition is_PortNamespace :: "port \<Rightarrow> bool" where
  "is_PortNamespace p = (case p of PortNamespace _ _ _ _ _ _ _ _ \<Rightarrow> True | _ \<Rightarrow> False)"

fun type_of :: "pyval \<Rightarrow> pytype" where
  "type_of PNone = TNoneType"
| "type_of (PBool _) = TBool"
| "type_of (PInt _) = TInt"
| "type_of (PStr _) = TStr"
| "type_of (PTuple _) = TTuple"
| "type_of (PDict _) = TDict"
| "type_of (PRef _) = TDict"
| "type_of (PType _) = TType"
| "type_of (PFunc _) = TFunction"
| "type_of (PPort (InputPort _ _ _ _ _ _)) = TInputPort"
| "type_of (PPort (OutputPort _ _ _ _ _)) = TOutputPort"
| "type_of (PPort (PortNamespace _ _ _ _ _ _ _ _)) = TPortNamespace"

text \<open>The classes a class derives from, itself first (its method resolution order);
  \<^verbatim>\<open>bool\<close> derives from \<^verbatim>\<open>int\<close>, the port classes from \<^verbatim>\<open>ValueSpec\<close>.\<close>

fun mro :: "pytype \<Rightarrow> pytype list" where
  "mro TObject = [TObject]"
| "mro TBool = [TBool, TInt, TObject]"
| "mro TValueSpec = [TValueSpec, TObject]"
| "mro TPort = [TPort, TValueSpec, TObject]"
| "mro TInputPort = [TInputPort, TPort, TValueSpec, TObject]"
| "mro TOutputPort = [TOutputPort, TPort, TValueSpec, TObject]"
| "mro TPortNamespace = [TPortNamespace, TPort, TValueSpec, TObject]"
| "mro c = [c, TObject]"

definition is_subclass :: "pytype \<Rightarrow> pytype \<Rightarrow> bool" where
  "is_subclass c d = (d \<in> set (mro c))"

text \<open>\<^verbatim>\<open>isinstance(value, classinfo)\<close>: \<open>classinfo\<close> is a class or a tuple of such, tried
  from left to right; anything else raises \<^verbatim>\<open>TypeError\<close>.\<close>

fun isinstance :: "pyval \<Rightarrow> pyval \<Rightarrow> py_error + bool"
and isinstance_any :: "pyval \<Rightarrow> pyval list \<Rightarrow> py_error + bool" where
  "isinstance v (PType c) = Inr (is_subclass (type_of v) c)"
| "isinstance v (PTuple cs) = isinstance_any v cs"
| "isinstance v _ = Inl TypeError"
| "isinstance_any v [] = Inr False"
| "isinstance_any v (c # cs) =
     (case isinstance v c of
        Inl e \<Rightarrow> Inl e
      | Inr True \<Rightarrow> Inr True
      | Inr False \<Rightarrow> isinstance_any v cs)"

text \<open>Truth value of an object: \<^verbatim>\<open>PortNamespace\<close> is a mapping, so it is false when it has
  no ports.\<close>

fun truthy :: "store \<Rightarrow> pyval \<Rightarrow> bool" where
  "truthy h PNone = False"
| "truthy h (PBool b) = b"
| "truthy h (PInt i) = (i \<noteq> 0)"
| "truthy h (PStr s) = (s \<noteq> [])"
| "truthy h (PTuple xs) = (xs \<noteq> [])"
| "truthy h (PDict kvs) = (kvs \<noteq> [])"
| "truthy h (PRef a) = (deref h a \<noteq> [])"
| "truthy h (PType _) = True"
| "truthy h (PFunc _) = True"
| "truthy h (PPort (PortNamespace _ _ _ _ _ _ _ ps)) = (ps \<noteq> [])"
| "truthy h (PPort _) = True"

text \<open>Calling an object. Functions and classes are callable, the other modelled values
  are not (ports define no \<^verbatim>\<open>__call__\<close>). Calling a class constructs an instance:
  \<^verbatim>\<open>bool(x)\<close> is the truth value of \<^verbatim>\<open>x\<close> (\<^verbatim>\<open>bool\<close> takes at most one argument);
  \<^verbatim>\<open>int\<close> of an integer or a boolean is its integer value, and \<^verbatim>\<open>int\<close> of any other single
  modelled value that is not a string raises \<^verbatim>\<open>TypeError\<close>. What a function returns, and
  what the remaining constructor calls return (\<^verbatim>\<open>int\<close> of a string or with a base, and the
  other classes), is given by the environment.\<close>

fun bool_new :: "store \<Rightarrow> pyval list \<Rightarrow> py_error + pyval" where
  "bool_new h [] = Inr (PBool False)"
| "bool_new h [v] = Inr (PBool (truthy h v))"
| "bool_new h (v # w # args) = Inl TypeError"

fun int_new :: "pyval list \<Rightarrow> (py_error + pyval) option" where
  "int_new [] = Some (Inr (PInt 0))"
| "int_new [PInt i] = Some (Inr (PInt i))"
| "int_new [PBool b] = Some (Inr (PInt (if b then 1 else 0)))"
| "int_new [PStr s] = None"
| "int_new [v] = Some (Inl TypeError)"
| "int_new args = None"

definition call :: "env \<Rightarrow> store \<Rightarrow> pyval \<Rightarrow> pyval list \<Rightarrow> py_error + pyval" where
  "call env h f args =
     (case f of
        PFunc g \<Rightarrow> env f h args
      | PType c \<Rightarrow>
          if c = TBool then bool_new h args
          else if c = TInt then
            (case int_new args of Some r \<Rightarrow> r | None \<Rightarrow> env f h args)
          else env f h args
      | _ \<Rightarrow> Inl TypeError)"

text \<open>The members of \<^verbatim>\<open>collections.Sequence\<close> among the modelled values, with their
  elements: tuples and strings (a string is the sequence of its one-character strings).\<close>

fun sequence_items :: "pyval \<Rightarrow> pyval list option" where
  "sequence_items (PTuple xs) = Some xs"
| "sequence_items (PStr s) = Some (map (\<lambda>c. PStr [c]) s)"
| "sequence_items _ = None"

section \<open>ValueSpec.validate\<close>

text \<open>Messages: the fixed text of each format string is kept, its rendered arguments are
  left out.\<close>

definition msg_required :: pyval where
  "msg_required = PStr ''required value was not provided for''"

definition msg_wrong_type :: pyval where
  "msg_wrong_type = PStr ''value is not of the right type''"

definition msg_failed :: pyval where
  "msg_failed = PStr ''Value failed validation''"

definition result_ok :: pyval where
  "result_ok = PTuple [PBool True, PNone]"

text \<open>The part of \<^verbatim>\<open>ValueSpec.validate\<close> after the first \<^verbatim>\<open>if\<close>/\<^verbatim>\<open>else\<close>: the custom
  validator.\<close>

definition run_validator :: "env \<Rightarrow> store \<Rightarrow> port \<Rightarrow> pyval \<Rightarrow> py_error + pyval" where
  "run_validator env h p v =
     (if port_validator p \<noteq> PNone then
        (case call env h (port_validator p) [v] of
           Inl e \<Rightarrow> Inl e
         | Inr result \<Rightarrow>
             (case sequence_items result of
                Some xs \<Rightarrow> if length xs = 2 then Inr result else Inl AssertionError
              | None \<Rightarrow>
                  if result = PBool False then Inr (PTuple [PBool False, msg_failed])
                  else Inr result_ok))
      else Inr result_ok)"

definition ValueSpec_validate :: "env \<Rightarrow> store \<Rightarrow> port \<Rightarrow> pyval \<Rightarrow> py_error + pyval" where
  "ValueSpec_validate env h p v =
     (if is_UNSPECIFIED v then
        (if truthy h (port_required p) then Inr (PTuple [PBool False, msg_required])
         else run_validator env h p v)
      else
        (if port_valid_type p \<noteq> PNone then
           (case isinstance v (port_valid_type p) of
              Inl e \<Rightarrow> Inl e
            | Inr True \<Rightarrow> run_validator env h p v
            | Inr False \<Rightarrow> Inr (PTuple [PBool False, msg_wrong_type]))
         else run_validator env h p v))"

text \<open>Iterating over a value, as tuple unpacking does: a dictionary and a
  \<^verbatim>\<open>PortNamespace\<close> yield their keys.\<close>

fun iter_items :: "store \<Rightarrow> pyval \<Rightarrow> py_error + pyval list" where
  "iter_items h (PTuple xs) = Inr xs"
| "iter_items h (PStr s) = Inr (map (\<lambda>c. PStr [c]) s)"
| "iter_items h (PDict kvs) = Inr (map (\<lambda>kv. PStr (fst kv)) kvs)"
| "iter_items h (PRef a) = Inr (map (\<lambda>kv. PStr (fst kv)) (deref h a))"
| "iter_items h (PPort (PortNamespace _ _ _ _ _ _ _ ps)) = Inr (map (\<lambda>kv. PStr (fst kv)) ps)"
| "iter_items h _ = Inl TypeError"

text \<open>\<^verbatim>\<open>a, b = value\<close>\<close>

definition unpack2 :: "store \<Rightarrow> pyval \<Rightarrow> py_error + pyval \<times> pyval" where
  "unpack2 h v =
     (case iter_items h v of
        Inl e \<Rightarrow> Inl e
      | Inr [a, b] \<Rightarrow> Inr (a, b)
      | Inr _ \<Rightarrow> Inl ValueError)"


section \<open>Property setters\<close>

text \<open>The setters of \<^verbatim>\<open>ValueSpec\<close> (\<^verbatim>\<open>help\<close>, \<^verbatim>\<open>required\<close>, \<^verbatim>\<open>validator\<close>,
  \<^verbatim>\<open>valid_type\<close>), of \<^verbatim>\<open>InputPort\<close> (\<^verbatim>\<open>default\<close>) and of \<^verbatim>\<open>PortNamespace\<close>
  (\<^verbatim>\<open>default\<close>, \<^verbatim>\<open>dynamic\<close>, and \<^verbatim>\<open>valid_type\<close>, which also rewrites \<^verbatim>\<open>dynamic\<close>).\<close>

fun set_help :: "port \<Rightarrow> pyval \<Rightarrow> port" where
  "set_help (InputPort n vt hp rq vd df) x = InputPort n vt x rq vd df"
| "set_help (OutputPort n vt hp rq vd) x = OutputPort n vt x rq vd"
| "set_help (PortNamespace n vt hp rq vd df dy ps) x = PortNamespace n vt x rq vd df dy ps"

fun set_required :: "port \<Rightarrow> pyval \<Rightarrow> port" where
  "set_required (InputPort n vt hp rq vd df) x = InputPort n vt hp x vd df"
| "set_required (OutputPort n vt hp rq vd) x = OutputPort n vt hp x vd"
| "set_required (PortNamespace n vt hp rq vd df dy ps) x = PortNamespace n vt hp x vd df dy ps"

fun set_validator :: "port \<Rightarrow> pyval \<Rightarrow> port" where
  "set_validator (InputPort n vt hp rq vd df) x = InputPort n vt hp rq x df"
| "set_validator (OutputPort n vt hp rq vd) x = OutputPort n vt hp rq x"
| "set_validator (PortNamespace n vt hp rq vd df dy ps) x = PortNamespace n vt hp rq x df dy ps"

fun set_dynamic :: "port \<Rightarrow> pyval \<Rightarrow> port" where
  "set_dynamic (PortNamespace n vt hp rq vd df dy ps) x = PortNamespace n vt hp rq vd df x ps"
| "set_dynamic p x = p"

fun set_default :: "port \<Rightarrow> pyval \<Rightarrow> port" where
  "set_default (InputPort n vt hp rq vd df) x = InputPort n vt hp rq vd x"
| "set_default (PortNamespace n vt hp rq vd df dy ps) x = PortNamespace n vt hp rq vd x dy ps"
| "set_default p x = p"

fun set_valid_type :: "port \<Rightarrow> pyval \<Rightarrow> port" where
  "set_valid_type (InputPort n vt hp rq vd df) x = InputPort n x hp rq vd df"
| "set_valid_type (OutputPort n vt hp rq vd) x = OutputPort n x hp rq vd"
| "set_valid_type (PortNamespace n vt hp rq vd df dy ps) x =
     (let self = (if x = PNone
                  then set_dynamic (PortNamespace n vt hp rq vd df dy ps) (PBool False)
                  else set_dynamic (PortNamespace n vt hp rq vd df dy ps) (PBool True))
      in PortNamespace (port_name self) x (port_help self) (port_required self)
           (port_validator self) (port_default self) (port_dynamic self) (port_ports self))"

section \<open>Constructors\<close>

definition required_override :: "pyval \<Rightarrow> pyval \<Rightarrow> pyval" where
  "required_override required dflt = (if is_UNSPECIFIED dflt then required else PBool False)"

definition log_overridden :: string where
  "log_overridden = ''the required attribute for the input port was overridden because a default was specified''"

text \<open>\<^verbatim>\<open>InputPort.__init__\<close>: the result is the raised exception, or the constructed port
  with the messages sent to the logger. The \<^verbatim>\<open>_default\<close> attribute is assigned last; until
  then the field holds a placeholder that \<^verbatim>\<open>validate\<close> never reads.\<close>

definition InputPort_init ::
  "env \<Rightarrow> store \<Rightarrow> pyval \<Rightarrow> pyval \<Rightarrow> pyval \<Rightarrow> pyval \<Rightarrow> pyval \<Rightarrow> pyval
     \<Rightarrow> py_error + port \<times> string list" where
  "InputPort_init env h name valid_type help dflt required validator =
     (let self = InputPort name valid_type help (required_override required dflt) validator
                   UNSPECIFIED;
          logged = (if required \<noteq> required_override required dflt then [log_overridden] else [])
      in if \<not> is_UNSPECIFIED dflt then
           (case ValueSpec_validate env h self dflt of
              Inl e \<Rightarrow> Inl e
            | Inr res \<Rightarrow>
                (case unpack2 h res of
                   Inl e \<Rightarrow> Inl e
                 | Inr (default_valid, msg) \<Rightarrow>
                     if \<not> truthy h default_valid then Inl ValueError
                     else Inr (set_default self dflt, logged)))
         else Inr (set_default self dflt, logged))"

text \<open>\<^verbatim>\<open>OutputPort.__init__\<close>: the base constructor runs with its defaults
  (\<^verbatim>\<open>required=True\<close>, no validator), then \<^verbatim>\<open>_required\<close> is assigned.\<close>

definition OutputPort_init :: "pyval \<Rightarrow> pyval \<Rightarrow> pyval \<Rightarrow> pyval \<Rightarrow> port" where
  "OutputPort_init name valid_type required help =
     set_required (OutputPort name valid_type help (PBool True) PNone) required"

text \<open>\<^verbatim>\<open>PortNamespace.__init__\<close>: the attributes are stored as given (the
  \<^verbatim>\<open>valid_type\<close> setter is not used), with no ports.\<close>

definition PortNamespace_init ::
  "pyval \<Rightarrow> pyval \<Rightarrow> pyval \<Rightarrow> pyval \<Rightarrow> pyval \<Rightarrow> pyval \<Rightarrow> pyval \<Rightarrow> port" where
  "PortNamespace_init name help required validator valid_type dflt dynamic =
     PortNamespace name valid_type help required validator dflt dynamic []"

section \<open>Dotted paths\<close>

definition NAMESPACE_SEPARATOR :: char where
  "NAMESPACE_SEPARATOR = CHR ''.''"

text \<open>\<^verbatim>\<open>name.split(sep)\<close> and \<^verbatim>\<open>sep.join(parts)\<close> for a one-character separator.\<close>

fun str_split :: "char \<Rightarrow> string \<Rightarrow> string list" where
  "str_split sep [] = [[]]"
| "str_split sep (c # cs) =
     (if c = sep then [] # str_split sep cs
      else (c # hd (str_split sep cs)) # tl (str_split sep cs))"

fun str_join :: "char \<Rightarrow> string list \<Rightarrow> string" where
  "str_join sep [] = []"
| "str_join sep [x] = x"
| "str_join sep (x # y # ys) = x @ sep # str_join sep (y # ys)"

lemma str_split_not_Nil [simp]: "str_split sep s \<noteq> []"
  by (induction s) auto

lemma str_join_split [simp]: "str_join sep (str_split sep s) = s"
proof (induction s)
  case Nil
  then show ?case by simp
next
  case (Cons c cs)
  obtain w ws where w: "str_split sep cs = w # ws"
    by (cases "str_split sep cs") auto
  with Cons show ?case by (cases ws) auto
qed

lemma str_join_tl_split_less:
  assumes "tl (str_split sep s) \<noteq> []"
  shows "length (str_join sep (tl (str_split sep s))) < length s"
proof -
  obtain w y ys where w: "str_split sep s = w # y # ys"
    using assms by (cases "str_split sep s"; cases "tl (str_split sep s)") auto
  have "s = str_join sep (w # y # ys)"
    using str_join_split [of sep s] w by simp
  then have "length s = length w + 1 + length (str_join sep (y # ys))"
    by simp
  with w show ?thesis by simp
qed

section \<open>PortNamespace.get_port\<close>

function get_port :: "port \<Rightarrow> pyval \<Rightarrow> py_error + port" where
  "get_port self name =
     (case self of
        PortNamespace n vt hp rq vd df dy ps \<Rightarrow>
          (case name of
             PStr s \<Rightarrow>
               if s = [] then Inl ValueError
               else
                 let namespace = str_split NAMESPACE_SEPARATOR s;
                     port_name = hd namespace;
                     namespace = tl namespace
                 in (case map_of ps port_name of
                       None \<Rightarrow> Inl ValueError
                     | Some child \<Rightarrow>
                         if namespace \<noteq> []
                         then get_port child (PStr (str_join NAMESPACE_SEPARATOR namespace))
                         else Inr child)
           | _ \<Rightarrow> Inl ValueError)
      | _ \<Rightarrow> Inl AttributeError)"
  by pat_completeness auto
termination
  by (relation "measure (\<lambda>(self, name). case name of PStr s \<Rightarrow> length s | _ \<Rightarrow> 0)")
     (auto simp: str_join_tl_split_less)

declare get_port.simps [simp del]

text \<open>Sequential single-level lookups: \<^verbatim>\<open>get_port(a)\<close>, then \<^verbatim>\<open>get_port(b)\<close> on its
  result, and so on.\<close>

fun get_port_seq :: "port \<Rightarrow> string list \<Rightarrow> py_error + port" where
  "get_port_seq self [] = Inr self"
| "get_port_seq self (x # xs) =
     (case get_port self (PStr x) of Inl e \<Rightarrow> Inl e | Inr p \<Rightarrow> get_port_seq p xs)"

text \<open>The node a list of segments leads to, by direct access to the children
  (\<^verbatim>\<open>self._ports\<close>) at each level; \<open>None\<close> when a segment is missing.\<close>

fun resolve :: "port \<Rightarrow> string list \<Rightarrow> port option" where
  "resolve self [] = Some self"
| "resolve self (x # xs) =
     (case self of
        PortNamespace n vt hp rq vd df dy ps \<Rightarrow>
          (case map_of ps x of None \<Rightarrow> None | Some child \<Rightarrow> resolve child xs)
      | _ \<Rightarrow> None)"

text \<open>\<^verbatim>\<open>get_port\<close> unrolled over the list of segments of its argument.\<close>

fun get_list :: "port \<Rightarrow> string list \<Rightarrow> py_error + port" where
  "get_list self [] = Inl ValueError"
| "get_list self (x # xs) =
     (case self of
        PortNamespace n vt hp rq vd df dy ps \<Rightarrow>
          if x = [] \<and> xs = [] then Inl ValueError
          else (case map_of ps x of
                  None \<Rightarrow> Inl ValueError
                | Some child \<Rightarrow> if xs \<noteq> [] then get_list child xs else Inr child)
      | _ \<Rightarrow> Inl AttributeError)"

section \<open>Container access\<close>

text \<open>\<^verbatim>\<open>key in self\<close>, \<^verbatim>\<open>self[key]\<close> and \<^verbatim>\<open>self[key] = port\<close> on a \<^verbatim>\<open>PortNamespace\<close>. Every
  value of type \<open>port\<close> is an instance of \<^verbatim>\<open>Port\<close>, so the type check of \<^verbatim>\<open>__setitem__\<close>
  passes. Assigning to an existing key keeps its position, a new key goes last.\<close>

definition contains :: "port \<Rightarrow> string \<Rightarrow> bool" where
  "contains self key = (map_of (port_ports self) key \<noteq> None)"

definition getitem :: "port \<Rightarrow> string \<Rightarrow> py_error + port" where
  "getitem self key =
     (case map_of (port_ports self) key of None \<Rightarrow> Inl KeyError | Some p \<Rightarrow> Inr p)"

fun setitem :: "port \<Rightarrow> string \<Rightarrow> port \<Rightarrow> port" where
  "setitem (PortNamespace n vt hp rq vd df dy ps) key p =
     PortNamespace n vt hp rq vd df dy (AList.update key p ps)"
| "setitem self key p = self"

section \<open>PortNamespace.create_port_namespace\<close>

text \<open>\<^verbatim>\<open>self.__class__(port_name, **kwargs)\<close>: a keyword that is not a parameter of the
  constructor raises \<^verbatim>\<open>TypeError\<close>; a parameter that is not given takes its default.\<close>

definition dict_get :: "dict \<Rightarrow> string \<Rightarrow> pyval \<Rightarrow> pyval" where
  "dict_get d key dflt = (case map_of d key of None \<Rightarrow> dflt | Some v \<Rightarrow> v)"

definition PortNamespace_new :: "pyval \<Rightarrow> dict \<Rightarrow> py_error + port" where
  "PortNamespace_new name kwargs =
     (if list_all (\<lambda>k. k \<in> set [''help'', ''required'', ''validator'', ''valid_type'',
                                 ''default'', ''dynamic'']) (map fst kwargs)
      then Inr (PortNamespace_init name (dict_get kwargs ''help'' PNone)
                  (dict_get kwargs ''required'' (PBool True)) (dict_get kwargs ''validator'' PNone)
                  (dict_get kwargs ''valid_type'' PNone) (dict_get kwargs ''default'' UNSPECIFIED)
                  (dict_get kwargs ''dynamic'' (PBool False)))
      else Inl TypeError)"

definition PortNamespace_new_bare :: "pyval \<Rightarrow> port" where
  "PortNamespace_new_bare name =
     PortNamespace_init name PNone (PBool True) PNone PNone UNSPECIFIED (PBool False)"

text \<open>The method changes \<^verbatim>\<open>self\<close> in place, also when it raises later on: the result is the
  returned node (or the exception) together with \<^verbatim>\<open>self\<close> as the call leaves it. The child
  the recursive call changes is the object stored under \<^verbatim>\<open>port_name\<close>, so its new state is
  written back there.\<close>

function create_port_namespace :: "port \<Rightarrow> pyval \<Rightarrow> dict \<Rightarrow> (py_error + port) \<times> port" where
  "create_port_namespace self name kwargs =
     (case self of
        PortNamespace n vt hp rq vd df dy ps \<Rightarrow>
          (case name of
             PStr s \<Rightarrow>
               if s = [] then (Inl ValueError, self)
               else
                 let namespace = str_split NAMESPACE_SEPARATOR s;
                     port_name = hd namespace;
                     namespace = tl namespace
                 in if contains self port_name
                       \<and> (case getitem self port_name of
                             Inr p \<Rightarrow> \<not> is_PortNamespace p | Inl e \<Rightarrow> False)
                    then (Inl ValueError, self)
                    else
                      (case (if \<not> contains self port_name then
                               (if namespace \<noteq> [] then
                                  Inr (setitem self port_name
                                        (PortNamespace_new_bare (PStr port_name)))
                                else
                                  (case PortNamespace_new (PStr port_name) kwargs of
                                     Inl e \<Rightarrow> Inl e
                                   | Inr p \<Rightarrow> Inr (setitem self port_name p)))
                             else Inr self) of
                         Inl e \<Rightarrow> (Inl e, self)
                       | Inr self1 \<Rightarrow>
                           (case getitem self1 port_name of
                              Inl e \<Rightarrow> (Inl e, self1)
                            | Inr child \<Rightarrow>
                                if namespace \<noteq> [] then
                                  (case create_port_namespace child
                                          (PStr (str_join NAMESPACE_SEPARATOR namespace)) kwargs of
                                     (res, child') \<Rightarrow> (res, setitem self1 port_name child'))
                                else (Inr child, self1)))
           | _ \<Rightarrow> (Inl ValueError, self))
      | _ \<Rightarrow> (Inl AttributeError, self))"
  by pat_completeness auto
termination
  by (relation "measure (\<lambda>(self, name, kwargs). case name of PStr s \<Rightarrow> length s | _ \<Rightarrow> 0)")
     (auto simp: str_join_tl_split_less)

declare create_port_namespace.simps [simp del]

text \<open>\<^verbatim>\<open>create_port_namespace\<close> unrolled over the list of segments of its argument.\<close>

fun create_list :: "port \<Rightarrow> string list \<Rightarrow> dict \<Rightarrow> (py_error + port) \<times> port" where
  "create_list self [] kwargs = (Inl ValueError, self)"
| "create_list self (x # xs) kwargs =
     (case self of
        PortNamespace n vt hp rq vd df dy ps \<Rightarrow>
          if x = [] \<and> xs = [] then (Inl ValueError, self)
          else if contains self x
                  \<and> (case getitem self x of Inr p \<Rightarrow> \<not> is_PortNamespace p | Inl e \<Rightarrow> False)
          then (Inl ValueError, self)
          else
            (case (if \<not> contains self x then
                     (if xs \<noteq> [] then
                        Inr (setitem self x (PortNamespace_new_bare (PStr x)))
                      else
                        (case PortNamespace_new (PStr x) kwargs of
                           Inl e \<Rightarrow> Inl e
                         | Inr p \<Rightarrow> Inr (setitem self x p)))
                   else Inr self) of
               Inl e \<Rightarrow> (Inl e, self)
             | Inr self1 \<Rightarrow>
                 (case getitem self1 x of
                    Inl e \<Rightarrow> (Inl e, self1)
                  | Inr child \<Rightarrow>
                      if xs \<noteq> [] then
                        (case create_list child xs kwargs of
                           (res, child') \<Rightarrow> (res, setitem self1 x child'))
                      else (Inr child, self1)))
      | _ \<Rightarrow> (Inl AttributeError, self))"

section \<open>PortNamespace.absorb\<close>

text \<open>Modelled from the spec: \<^verbatim>\<open>is_mutable_property\<close> of \<^verbatim>\<open>plumpy.utils\<close> is not among the
  sources. The spec lists the mutable properties of \<^verbatim>\<open>PortNamespace\<close> as default, dynamic,
  valid_type, required, help and validator (not name); \<^verbatim>\<open>dir\<close> yields attribute names in
  alphabetical order, which is the order of this list.\<close>

definition mutable_properties :: "string list" where
  "mutable_properties =
     [''default'', ''dynamic'', ''help'', ''required'', ''valid_type'', ''validator'']"

text \<open>\<^verbatim>\<open>getattr\<close> and \<^verbatim>\<open>setattr\<close> for these properties of a \<^verbatim>\<open>PortNamespace\<close>; \<^verbatim>\<open>setattr\<close> goes
  through the property setters.\<close>

fun getattr :: "port \<Rightarrow> string \<Rightarrow> py_error + pyval" where
  "getattr (PortNamespace n vt hp rq vd df dy ps) attr =
     (if attr = ''default'' then Inr df
      else if attr = ''dynamic'' then Inr dy
      else if attr = ''help'' then Inr hp
      else if attr = ''required'' then Inr rq
      else if attr = ''valid_type'' then Inr vt
      else if attr = ''validator'' then Inr vd
      else Inl AttributeError)"
| "getattr p attr = Inl AttributeError"

definition setattr :: "port \<Rightarrow> string \<Rightarrow> pyval \<Rightarrow> py_error + port" where
  "setattr self attr v =
     (if \<not> is_PortNamespace self then Inl AttributeError
      else if attr = ''default'' then Inr (set_default self v)
      else if attr = ''dynamic'' then Inr (set_dynamic self v)
      else if attr = ''help'' then Inr (set_help self v)
      else if attr = ''required'' then Inr (set_required self v)
      else if attr = ''valid_type'' then Inr (set_valid_type self v)
      else if attr = ''validator'' then Inr (set_validator self v)
      else Inl AttributeError)"

text \<open>The first loop of \<^verbatim>\<open>absorb\<close>, over the attribute names: it changes \<^verbatim>\<open>self\<close> and pops
  the overrides it uses from \<^verbatim>\<open>namespace_options\<close>.\<close>

fun absorb_attrs ::
  "port \<Rightarrow> port \<Rightarrow> string list \<Rightarrow> dict \<Rightarrow> (py_error + unit) \<times> port \<times> dict" where
  "absorb_attrs self other [] namespace_options = (Inr (), self, namespace_options)"
| "absorb_attrs self other (attr # attrs) namespace_options =
     (case map_of namespace_options attr of
        Some v \<Rightarrow>
          (case setattr self attr v of
             Inl e \<Rightarrow> (Inl e, self, AList.delete attr namespace_options)
           | Inr self' \<Rightarrow> absorb_attrs self' other attrs (AList.delete attr namespace_options))
      | None \<Rightarrow>
          (case getattr other attr of
             Inl e \<Rightarrow> (Inl e, self, namespace_options)
           | Inr v \<Rightarrow>
               (case setattr self attr v of
                  Inl e \<Rightarrow> (Inl e, self, namespace_options)
                | Inr self' \<Rightarrow> absorb_attrs self' other attrs namespace_options)))"

text \<open>\<^verbatim>\<open>_filter_ports\<close> is a generator: its body, the mutual-exclusion check included, runs
  when the loop of \<^verbatim>\<open>absorb\<close> asks for the first item. \<open>exclude\<close> is a tuple of names,
  \<open>include\<close> is \<^verbatim>\<open>None\<close> or a tuple of names.\<close>

definition filter_ports ::
  "(string \<times> port) list \<Rightarrow> string list \<Rightarrow> string list option
     \<Rightarrow> py_error + (string \<times> port) list" where
  "filter_ports items exclude include =
     (if exclude \<noteq> [] \<and> include \<noteq> None then Inl ValueError
      else Inr (filter (\<lambda>(name, port).
                  (case include of
                     Some inc \<Rightarrow> name \<in> set inc
                   | None \<Rightarrow> name \<notin> set exclude)) items))"

text \<open>The second loop: each port is stored under its name and the name is recorded. A
  port is taken by value, so its deep copy is the same value.\<close>

fun absorb_ports :: "port \<Rightarrow> (string \<times> port) list \<Rightarrow> string list \<Rightarrow> port \<times> string list" where
  "absorb_ports self [] absorbed_ports = (self, absorbed_ports)"
| "absorb_ports self ((name, port) # items) absorbed_ports =
     absorb_ports (setitem self name port) items (absorbed_ports @ [name])"

text \<open>The result is the list of absorbed names (or the exception), with \<^verbatim>\<open>self\<close> and
  \<^verbatim>\<open>namespace_options\<close> as the call leaves them.\<close>

definition absorb ::
  "port \<Rightarrow> pyval \<Rightarrow> string list \<Rightarrow> string list option \<Rightarrow> dict
     \<Rightarrow> (py_error + string list) \<times> port \<times> dict" where
  "absorb self port_namespace exclude include namespace_options =
     (if \<not> is_PortNamespace self then (Inl AttributeError, self, namespace_options)
      else
        (case port_namespace of
           PPort (PortNamespace n vt hp rq vd df dy ps) \<Rightarrow>
             (case absorb_attrs self (PortNamespace n vt hp rq vd df dy ps) mutable_properties
                     namespace_options of
                (Inl e, self1, options1) \<Rightarrow> (Inl e, self1, options1)
              | (Inr u, self1, options1) \<Rightarrow>
                  if options1 \<noteq> [] then (Inl ValueError, self1, options1)
                  else
                    (case filter_ports ps exclude include of
                       Inl e \<Rightarrow> (Inl e, self1, options1)
                     | Inr items \<Rightarrow>
                         (case absorb_ports self1 items [] of
                            (self2, absorbed_ports) \<Rightarrow> (Inr absorbed_ports, self2, options1))))
         | _ \<Rightarrow> (Inl ValueError, self, namespace_options)))"

text \<open>The state in which the first loop leaves \<^verbatim>\<open>self\<close>, and the overrides it leaves in
  \<^verbatim>\<open>namespace_options\<close>: every mutable property holds the override when there is one and
  the value of the other namespace otherwise, except \<^verbatim>\<open>dynamic\<close>, which the \<^verbatim>\<open>valid_type\<close>
  setter has rewritten.\<close>

definition absorbed_self :: "port \<Rightarrow> port \<Rightarrow> dict \<Rightarrow> port" where
  "absorbed_self self other opts =
     PortNamespace (port_name self) (dict_get opts ''valid_type'' (port_valid_type other))
       (dict_get opts ''help'' (port_help other))
       (dict_get opts ''required'' (port_required other))
       (dict_get opts ''validator'' (port_validator other))
       (dict_get opts ''default'' (port_default other))
       (PBool (dict_get opts ''valid_type'' (port_valid_type other) \<noteq> PNone))
       (port_ports self)"

definition remaining_options :: "dict \<Rightarrow> dict" where
  "remaining_options opts =
     AList.delete ''validator'' (AList.delete ''valid_type'' (AList.delete ''required''
       (AList.delete ''help'' (AList.delete ''dynamic'' (AList.delete ''default'' opts)))))"

section \<open>PortNamespace.project\<close>

text \<open>\<^verbatim>\<open>port_values.items()\<close>: the entries of a dictionary, or the named ports of a
  \<^verbatim>\<open>PortNamespace\<close> (a mapping); any other value has no such method.\<close>

fun ns_items :: "(string \<times> port) list \<Rightarrow> (string \<times> pyval) list" where
  "ns_items [] = []"
| "ns_items ((name, p) # ps) = (name, PPort p) # ns_items ps"

fun items_of :: "store \<Rightarrow> pyval \<Rightarrow> py_error + (string \<times> pyval) list" where
  "items_of h (PDict kvs) = Inr kvs"
| "items_of h (PRef a) = Inr (deref h a)"
| "items_of h (PPort (PortNamespace n vt hp rq vd df dy ps)) = Inr (ns_items ps)"
| "items_of h v = Inl AttributeError"

definition items_weight :: "(string \<times> pyval) list \<Rightarrow> nat" where
  "items_weight items = sum_list (map (\<lambda>kv. Suc (size (snd kv))) items)"

lemma items_weight_ns_items:
  "items_weight (ns_items ps) \<le> size_list (size_prod (\<lambda>_. 0) size) ps"
  by (induction ps rule: ns_items.induct) (simp_all add: items_weight_def)

lemma items_weight_Cons [simp]:
  "items_weight ((name, v) # items) = Suc (size v) + items_weight items"
  by (simp add: items_weight_def)

function project :: "port \<Rightarrow> store \<Rightarrow> pyval \<Rightarrow> py_error + pyval"
and project_items :: "port \<Rightarrow> store \<Rightarrow> (string \<times> pyval) list \<Rightarrow> dict \<Rightarrow> py_error + dict" where
  "project self h port_values =
     (if \<not> is_PortNamespace self then Inl AttributeError
      else
        (case items_of h port_values of
           Inl e \<Rightarrow> Inl e
         | Inr items \<Rightarrow>
             (case project_items self h items [] of
                Inl e \<Rightarrow> Inl e
              | Inr result \<Rightarrow> Inr (PDict result))))"
| "project_items self h [] result = Inr result"
| "project_items self h ((name, v) # items) result =
     (if contains self name then
        (case v of
           PPort (PortNamespace n vt hp rq vd df dy ps) \<Rightarrow>
             (case getitem self name of
                Inl e \<Rightarrow> Inl e
              | Inr child \<Rightarrow>
                  (case project child h (PPort (PortNamespace n vt hp rq vd df dy ps)) of
                     Inl e \<Rightarrow> Inl e
                   | Inr r \<Rightarrow> project_items self h items (AList.update name r result)))
         | _ \<Rightarrow> project_items self h items (AList.update name v result))
      else project_items self h items result)"
  by pat_completeness auto
termination
  by (relation "measure (\<lambda>x. case x of
          Inl (self, h, port_values) \<Rightarrow>
            (case items_of h port_values of Inl e \<Rightarrow> 0 | Inr items \<Rightarrow> Suc (items_weight items))
        | Inr (self, h, items, result) \<Rightarrow> items_weight items)")
     (auto intro: le_less_trans [OF items_weight_ns_items])

declare project.simps [simp del]

section \<open>PortNamespace.validate\<close>

text \<open>\<^verbatim>\<open>dict(port_values)\<close>: a new dictionary with the entries of a dictionary or of a
  \<^verbatim>\<open>PortNamespace\<close> (a mapping), or built from an iterable of key and value pairs, a later
  pair replacing the value of an earlier one with the same key. The dictionaries of
  this embedding have string keys: a pair whose key is not a string cannot be stored and
  is refused.\<close>

definition pair_of :: "store \<Rightarrow> pyval \<Rightarrow> py_error + string \<times> pyval" where
  "pair_of h e =
     (case iter_items h e of
        Inl err \<Rightarrow> Inl TypeError
      | Inr [PStr k, v] \<Rightarrow> Inr (k, v)
      | Inr [k, v] \<Rightarrow> Inl TypeError
      | Inr xs \<Rightarrow> Inl ValueError)"

fun dict_of_pairs :: "store \<Rightarrow> pyval list \<Rightarrow> dict \<Rightarrow> py_error + dict" where
  "dict_of_pairs h [] d = Inr d"
| "dict_of_pairs h (e # es) d =
     (case pair_of h e of
        Inl err \<Rightarrow> Inl err
      | Inr (k, v) \<Rightarrow> dict_of_pairs h es (AList.update k v d))"

definition py_dict :: "store \<Rightarrow> pyval \<Rightarrow> py_error + dict" where
  "py_dict h v =
     (case v of
        PDict kvs \<Rightarrow> Inr kvs
      | PRef a \<Rightarrow> Inr (deref h a)
      | PPort (PortNamespace n vt hp rq vd df dy ps) \<Rightarrow> Inr (ns_items ps)
      | _ \<Rightarrow>
          (case iter_items h v of
             Inl err \<Rightarrow> Inl TypeError
           | Inr es \<Rightarrow> dict_of_pairs h es []))"

text \<open>\<^verbatim>\<open>port_values.pop(name, default)\<close> on the dictionary object at an address.\<close>

definition dict_pop :: "store \<Rightarrow> addr \<Rightarrow> string \<Rightarrow> pyval \<Rightarrow> pyval \<times> store" where
  "dict_pop h a key dflt =
     (case map_of (deref h a) key of
        Some v \<Rightarrow> (v, h[a := AList.delete key (deref h a)])
      | None \<Rightarrow> (dflt, h))"

definition msg_unexpected :: pyval where
  "msg_unexpected = PStr ''Unexpected ports, for a non dynamic namespace''"

definition msg_invalid_dynamic :: pyval where
  "msg_invalid_dynamic = PStr ''Invalid type for dynamic port value''"

text \<open>\<^verbatim>\<open>validate_dynamic_ports\<close>, on the entries left in the working dictionary.\<close>

fun dynamic_types :: "pyval \<Rightarrow> dict \<Rightarrow> py_error + pyval" where
  "dynamic_types valid_type [] = Inr result_ok"
| "dynamic_types valid_type ((k, port_value) # items) =
     (case isinstance port_value valid_type of
        Inl e \<Rightarrow> Inl e
      | Inr False \<Rightarrow> Inr (PTuple [PBool False, msg_invalid_dynamic])
      | Inr True \<Rightarrow> dynamic_types valid_type items)"

definition validate_dynamic_ports :: "port \<Rightarrow> store \<Rightarrow> dict \<Rightarrow> py_error + pyval" where
  "validate_dynamic_ports self h port_values =
     (if port_values \<noteq> [] \<and> \<not> truthy h (port_dynamic self)
      then Inr (PTuple [PBool False, msg_unexpected])
      else if port_valid_type self \<noteq> PNone
      then dynamic_types (port_valid_type self) port_values
      else Inr result_ok)"

text \<open>\<^verbatim>\<open>port.validate(value)\<close>, by the class of the port: \<^verbatim>\<open>PortNamespace.validate\<close> for a
  namespace, \<^verbatim>\<open>ValueSpec.validate\<close> for the other ports. The namespace method works on a
  new dictionary object, allocated at the end of the store; \<^verbatim>\<open>validate_ports\<close> pops the
  entries of the declared ports from that object. The result comes with the store as
  the call leaves it.\<close>

function validate :: "env \<Rightarrow> port \<Rightarrow> store \<Rightarrow> pyval \<Rightarrow> (py_error + pyval) \<times> store"
and validate_ports ::
  "env \<Rightarrow> (string \<times> port) list \<Rightarrow> store \<Rightarrow> addr \<Rightarrow> pyval \<Rightarrow> (py_error + pyval) \<times> store"
where
  "validate env self h port_values =
     (case self of
        PortNamespace n vt hp rq vd df dy ps \<Rightarrow>
          (case (if port_values = PNone then Inr [] else py_dict h port_values) of
             Inl e \<Rightarrow> (Inl e, h)
           | Inr d \<Rightarrow>
               (case (if vd \<noteq> PNone then
                        (case call env (h @ [d]) vd [PPort self, PRef (length h)] of
                           Inl e \<Rightarrow> Inl e
                         | Inr r \<Rightarrow> unpack2 (h @ [d]) r)
                      else Inr (PBool True, PNone)) of
                  Inl e \<Rightarrow> (Inl e, h @ [d])
                | Inr (is_valid, message) \<Rightarrow>
                    if vd \<noteq> PNone \<and> \<not> truthy (h @ [d]) is_valid
                    then (Inr (PTuple [is_valid, message]), h @ [d])
                    else if deref (h @ [d]) (length h) = [] \<and> \<not> truthy (h @ [d]) rq
                    then (Inr (PTuple [is_valid, message]), h @ [d])
                    else
                      (case validate_ports env ps (h @ [d]) (length h) result_ok of
                         (Inl e, h2) \<Rightarrow> (Inl e, h2)
                       | (Inr res, h2) \<Rightarrow>
                           (case unpack2 h2 res of
                              Inl e \<Rightarrow> (Inl e, h2)
                            | Inr (is_valid, message) \<Rightarrow>
                                if \<not> truthy h2 is_valid
                                then (Inr (PTuple [is_valid, message]), h2)
                                else (validate_dynamic_ports self h2 (deref h2 (length h)),
                                      h2)))))
      | _ \<Rightarrow> (ValueSpec_validate env h self port_values, h))"
| "validate_ports env [] h c acc = (Inr acc, h)"
| "validate_ports env ((name, port) # items) h c acc =
     (case dict_pop h c name UNSPECIFIED of
        (v, h1) \<Rightarrow>
          (case validate env port h1 v of
             (Inl e, h2) \<Rightarrow> (Inl e, h2)
           | (Inr res, h2) \<Rightarrow>
               (case unpack2 h2 res of
                  Inl e \<Rightarrow> (Inl e, h2)
                | Inr (is_valid, message) \<Rightarrow>
                    if \<not> truthy h2 is_valid then (Inr (PTuple [is_valid, message]), h2)
                    else validate_ports env items h2 c (PTuple [is_valid, message]))))"
  by pat_completeness auto
termination
  by (relation "measure (\<lambda>x. case x of
          Inl (env, self, h, port_values) \<Rightarrow> size self
        | Inr (env, items, h, c, acc) \<Rightarrow> size_list (size_prod (\<lambda>_. 0) size) items)")
     auto

declare validate.simps [simp del]

text \<open>A port keeps the store when no call of its \<^verbatim>\<open>validate\<close> changes or removes a
  dictionary object that existed before the call.\<close>

definition keeps_store :: "port \<Rightarrow> bool" where
  "keeps_store p = (\<forall>env h v r h'. validate env p h v = (r, h')
       \<longrightarrow> length h \<le> length h' \<and> (\<forall>a<length h. h' ! a = h ! a))"

section \<open>An example schema\<close>

definition example_root :: port where
  "example_root = PortNamespace_new_bare PNone"

definition example_leaf :: port where
  "example_leaf = InputPort (PStr ''c'') (PType TInt) PNone (PBool True) PNone UNSPECIFIED"

definition example_tree :: port where
  "example_tree =
     PortNamespace PNone PNone PNone (PBool True) PNone UNSPECIFIED (PBool False)
       [(''a'', PortNamespace (PStr ''a'') PNone PNone (PBool True) PNone UNSPECIFIED (PBool False)
          [(''b'', PortNamespace (PStr ''b'') PNone PNone (PBool True) PNone UNSPECIFIED (PBool False)
             [(''c'', example_leaf)])])]"

definition example_other :: port where
  "example_other =
     PortNamespace (PStr ''sub'') (PType TInt) (PStr ''inputs of sub'') (PBool False) PNone
       UNSPECIFIED (PBool True) [(''c'', example_leaf)]"

definition example_dotted :: port where
  "example_dotted =
     PortNamespace PNone PNone PNone (PBool True) PNone UNSPECIFIED (PBool False)
       [(''a'', PortNamespace (PStr ''a'') PNone PNone (PBool True) PNone UNSPECIFIED (PBool False)
          [([], PortNamespace (PStr []) PNone PNone (PBool True) PNone UNSPECIFIED (PBool False)
             [(''c'', PortNamespace (PStr ''c'') PNone PNone (PBool True) PNone UNSPECIFIED
                        (PBool False) [])])])]"

definition example_inputs :: port where
  "example_inputs =
     PortNamespace (PStr ''inputs'') PNone PNone (PBool False) PNone UNSPECIFIED (PBool False)
       [(''n'', InputPort (PStr ''n'') (PType TInt) PNone (PBool True) PNone UNSPECIFIED)]"

section \<open>Properties\<close>

subsection \<open>Auxiliary facts\<close>

lemma call_simps [simp]:
  "call env h (PFunc g) args = env (PFunc g) h args"
  "call env h (PType TBool) args = bool_new h args"
  "call env h (PType TInt) [PInt i] = Inr (PInt i)"
  "call env h (PType TInt) [PBool b] = Inr (PInt (if b then 1 else 0))"
  "call env h PNone args = Inl TypeError"
  by (simp_all add: call_def)

lemma set_required_sel [simp]:
  "port_required (set_required p r) = r"
  "port_validator (set_required p r) = port_validator p"
  "port_valid_type (set_required p r) = port_valid_type p"
  by (cases p; simp)+

lemma run_validator_set_required [simp]:
  "run_validator env h (set_required p r) v = run_validator env h p v"
  by (simp add: run_validator_def)

lemma str_split_no_sep: "sep \<notin> set x \<Longrightarrow> str_split sep x = [x]"
  by (induction x) auto

lemma str_split_append_sep:
  "sep \<notin> set x \<Longrightarrow> str_split sep (x @ sep # r) = x # str_split sep r"
  by (induction x) auto

lemma str_split_sep_free: "w \<in> set (str_split sep s) \<Longrightarrow> sep \<notin> set w"
proof (induction s arbitrary: w)
  case Nil
  then show ?case by simp
next
  case (Cons c cs)
  obtain v vs where v: "str_split sep cs = v # vs"
    by (cases "str_split sep cs") auto
  with Cons show ?case by (auto split: if_splits)
qed

lemma str_split_join:
  "xs \<noteq> [] \<Longrightarrow> \<forall>w\<in>set xs. sep \<notin> set w \<Longrightarrow> str_split sep (str_join sep xs) = xs"
proof (induction sep xs rule: str_join.induct)
  case (1 sep)
  then show ?case by simp
next
  case (2 sep x)
  then show ?case by (simp add: str_split_no_sep)
next
  case (3 sep x y ys)
  then show ?case by (simp add: str_split_append_sep)
qed

lemma str_split_eq_single_Nil: "str_split sep s = [[]] \<longleftrightarrow> s = []"
proof
  assume "str_split sep s = [[]]"
  then have "str_join sep (str_split sep s) = []" by simp
  then show "s = []" by simp
qed simp

lemma str_split_tl_join:
  assumes "tl (str_split sep s) \<noteq> []"
  shows "str_split sep (str_join sep (tl (str_split sep s))) = tl (str_split sep s)"
proof (rule str_split_join [OF assms])
  show "\<forall>w\<in>set (tl (str_split sep s)). sep \<notin> set w"
    by (meson list.set_sel(2) str_split_not_Nil str_split_sep_free)
qed

lemma get_port_eq_list:
  "get_port self (PStr s) = get_list self (str_split NAMESPACE_SEPARATOR s)"
proof (induction "length s" arbitrary: s self rule: less_induct)
  case less
  let ?sp = "str_split NAMESPACE_SEPARATOR s"
  obtain x xs where sp: "?sp = x # xs"
    by (cases ?sp) auto
  show ?case
  proof (cases self)
    case (PortNamespace n vt hp rq vd df dy ps)
    show ?thesis
    proof (cases "s = []")
      case True
      with PortNamespace show ?thesis by (simp add: get_port.simps)
    next
      case False
      then have nn: "\<not> (x = [] \<and> xs = [])"
        using sp str_split_eq_single_Nil [of NAMESPACE_SEPARATOR s] by auto
      have unf: "get_port self (PStr s) =
          (case map_of ps x of
             None \<Rightarrow> Inl ValueError
           | Some child \<Rightarrow>
               if xs \<noteq> [] then get_port child (PStr (str_join NAMESPACE_SEPARATOR xs))
               else Inr child)"
        using False sp PortNamespace by (subst get_port.simps) simp
      show ?thesis
      proof (cases "map_of ps x")
        case None
        with PortNamespace sp nn unf show ?thesis by simp
      next
        case (Some child)
        show ?thesis
        proof (cases "xs = []")
          case True
          with Some PortNamespace sp nn unf show ?thesis by simp
        next
          case xne: False
          then have tlne: "tl ?sp \<noteq> []" using sp by simp
          have lt: "length (str_join NAMESPACE_SEPARATOR xs) < length s"
            using str_join_tl_split_less [OF tlne] sp by simp
          have "str_split NAMESPACE_SEPARATOR (str_join NAMESPACE_SEPARATOR xs) = xs"
            using str_split_tl_join [OF tlne] sp by simp
          then have "get_port child (PStr (str_join NAMESPACE_SEPARATOR xs)) = get_list child xs"
            using less [OF lt, of child] by simp
          with Some PortNamespace sp nn xne unf show ?thesis by simp
        qed
      qed
    qed
  qed (simp_all add: get_port.simps sp)
qed

lemma get_list_seq:
  "segs \<noteq> [] \<Longrightarrow> \<forall>x\<in>set segs. x \<noteq> [] \<and> NAMESPACE_SEPARATOR \<notin> set x
     \<Longrightarrow> get_list self segs = get_port_seq self segs"
proof (induction segs arbitrary: self)
  case Nil
  then show ?case by simp
next
  case (Cons x xs)
  have one: "\<And>p. get_port p (PStr x) = get_list p [x]"
    using Cons.prems by (simp add: get_port_eq_list str_split_no_sep)
  show ?case
  proof (cases "xs = []")
    case True
    then show ?thesis using one [of self] by (auto split: sum.splits)
  next
    case False
    then show ?thesis
      using Cons one [of self] by (auto split: port.splits option.splits sum.splits)
  qed
qed

lemma get_list_resolve: "get_list self segs = Inr q \<Longrightarrow> resolve self segs = Some q"
  by (induction segs arbitrary: self) (auto split: port.splits option.splits if_splits)

lemma create_port_namespace_eq_list:
  "create_port_namespace self (PStr s) kwargs
     = create_list self (str_split NAMESPACE_SEPARATOR s) kwargs"
proof (induction "length s" arbitrary: s self rule: less_induct)
  case less
  let ?sp = "str_split NAMESPACE_SEPARATOR s"
  obtain x xs where sp: "?sp = x # xs"
    by (cases ?sp) auto
  show ?case
  proof (cases self)
    case (PortNamespace n vt hp rq vd df dy ps)
    show ?thesis
    proof (cases "s = []")
      case True
      with PortNamespace show ?thesis by (simp add: create_port_namespace.simps)
    next
      case False
      then have nn: "\<not> (x = [] \<and> xs = [])"
        using sp str_split_eq_single_Nil [of NAMESPACE_SEPARATOR s] by auto
      have rec: "xs \<noteq> [] \<Longrightarrow>
          create_port_namespace child (PStr (str_join NAMESPACE_SEPARATOR xs)) kwargs
            = create_list child xs kwargs" for child
      proof -
        assume "xs \<noteq> []"
        then have tlne: "tl ?sp \<noteq> []" using sp by simp
        have lt: "length (str_join NAMESPACE_SEPARATOR xs) < length s"
          using str_join_tl_split_less [OF tlne] sp by simp
        have "str_split NAMESPACE_SEPARATOR (str_join NAMESPACE_SEPARATOR xs) = xs"
          using str_split_tl_join [OF tlne] sp by simp
        then show ?thesis using less [OF lt, of child] by simp
      qed
      show ?thesis
        using False sp nn PortNamespace rec
        by (subst create_port_namespace.simps)
           (auto simp: Let_def split: sum.splits prod.splits)
    qed
  qed (simp_all add: create_port_namespace.simps sp)
qed

lemma setitem_PortNamespace [simp]: "is_PortNamespace (setitem self key p) = is_PortNamespace self"
  by (cases self) (simp_all add: is_PortNamespace_def)

lemma getitem_setitem [simp]:
  "is_PortNamespace self \<Longrightarrow> getitem (setitem self key p) key = Inr p"
  by (cases self) (simp_all add: is_PortNamespace_def getitem_def update_conv')

lemma contains_setitem [simp]:
  "is_PortNamespace self \<Longrightarrow> contains (setitem self key p) key"
  by (cases self) (simp_all add: is_PortNamespace_def contains_def update_conv')

lemma setitem_setitem [simp]:
  "setitem (setitem self key p) key q = setitem self key q"
  by (cases self) simp_all

lemma PortNamespace_new_is_namespace:
  "PortNamespace_new name kwargs = Inr p \<Longrightarrow> is_PortNamespace p"
  by (auto simp: PortNamespace_new_def PortNamespace_init_def is_PortNamespace_def
      split: if_splits)

lemma PortNamespace_new_bare_is_namespace [simp]:
  "is_PortNamespace (PortNamespace_new_bare name)"
  by (simp add: PortNamespace_new_bare_def PortNamespace_init_def is_PortNamespace_def)

lemma create_list_is_namespace:
  "is_PortNamespace (snd (create_list self segs kwargs)) = is_PortNamespace self"
proof (cases segs)
  case Nil
  then show ?thesis by simp
next
  case (Cons x xs)
  then show ?thesis
    by (cases self) (auto simp: is_PortNamespace_def split: sum.splits prod.splits)
qed

lemma contains_getitem: "contains self key \<longleftrightarrow> (\<exists>p. getitem self key = Inr p)"
  by (auto simp: contains_def getitem_def split: option.splits)

lemma create_list_Cons:
  "is_PortNamespace self \<Longrightarrow>
   create_list self (x # xs) kwargs =
     (if x = [] \<and> xs = [] then (Inl ValueError, self)
      else if contains self x
              \<and> (case getitem self x of Inr p \<Rightarrow> \<not> is_PortNamespace p | Inl e \<Rightarrow> False)
      then (Inl ValueError, self)
      else
        (case (if \<not> contains self x then
                 (if xs \<noteq> [] then
                    Inr (setitem self x (PortNamespace_new_bare (PStr x)))
                  else
                    (case PortNamespace_new (PStr x) kwargs of
                       Inl e \<Rightarrow> Inl e
                     | Inr p \<Rightarrow> Inr (setitem self x p)))
               else Inr self) of
           Inl e \<Rightarrow> (Inl e, self)
         | Inr self1 \<Rightarrow>
             (case getitem self1 x of
                Inl e \<Rightarrow> (Inl e, self1)
              | Inr child \<Rightarrow>
                  if xs \<noteq> [] then
                    (case create_list child xs kwargs of
                       (res, child') \<Rightarrow> (res, setitem self1 x child'))
                  else (Inr child, self1))))"
  by (cases self; hypsubst) (simp_all add: is_PortNamespace_def)

lemma create_list_ConsE:
  assumes "create_list self (x # xs) kwargs = (Inr node, self')"
  obtains s1 child where
    "is_PortNamespace self" "is_PortNamespace s1" "is_PortNamespace child"
    "getitem s1 x = Inr child" "\<not> (x = [] \<and> xs = [])"
    "(if xs \<noteq> [] then
        (case create_list child xs kwargs of (res, child') \<Rightarrow> (res, setitem s1 x child'))
      else (Inr child, s1)) = (Inr node, self')"
proof -
  from assms obtain n vt hp rq vd df dy ps
    where self: "self = PortNamespace n vt hp rq vd df dy ps"
    by (cases self) auto
  then have ns: "is_PortNamespace self" by (simp add: is_PortNamespace_def)
  from assms self have nn: "\<not> (x = [] \<and> xs = [])"
    by (auto split: if_splits)
  define self1 where "self1 =
     (if \<not> contains self x then
        (if xs \<noteq> [] then Inr (setitem self x (PortNamespace_new_bare (PStr x)))
         else (case PortNamespace_new (PStr x) kwargs of
                 Inl e \<Rightarrow> Inl e | Inr p \<Rightarrow> Inr (setitem self x p)))
      else (Inr self :: py_error + port))"
  from assms self nn have nocoll:
    "\<not> (contains self x
         \<and> (case getitem self x of Inr p \<Rightarrow> \<not> is_PortNamespace p | Inl e \<Rightarrow> False))"
    by (auto split: if_splits)
  from assms self nn nocoll obtain s1 child where
    s1: "self1 = Inr s1" and child: "getitem s1 x = Inr child"
    and rest: "(if xs \<noteq> [] then
                 (case create_list child xs kwargs of
                    (res, child') \<Rightarrow> (res, setitem s1 x child'))
               else (Inr child, s1)) = (Inr node, self')"
    unfolding self1_def
    by (simp split: sum.splits if_splits)
  have s1ns: "is_PortNamespace s1"
    using s1 ns unfolding self1_def by (auto split: if_splits sum.splits)
  have childns: "is_PortNamespace child"
    using s1 child nocoll ns unfolding self1_def
    by (auto split: if_splits sum.splits dest: PortNamespace_new_is_namespace)
  from ns s1ns childns child nn rest show thesis by (rule that)
qed

lemma create_list_idempotent:
  "create_list self segs kwargs = (Inr node, self')
     \<Longrightarrow> create_list self' segs kwargs' = (Inr node, self')"
proof (induction segs arbitrary: self node self')
  case Nil
  then show ?case by simp
next
  case (Cons x xs)
  from Cons.prems obtain s1 child where
    s1ns: "is_PortNamespace s1" and childns: "is_PortNamespace child"
    and child: "getitem s1 x = Inr child" and nn: "\<not> (x = [] \<and> xs = [])"
    and rest: "(if xs \<noteq> [] then
                 (case create_list child xs kwargs of
                    (res, child') \<Rightarrow> (res, setitem s1 x child'))
               else (Inr child, s1)) = (Inr node, self')"
    by (rule create_list_ConsE)
  show ?case
  proof (cases "xs = []")
    case True
    with rest have eq: "node = child" "self' = s1" by auto
    have "contains s1 x" using child by (simp add: contains_getitem)
    with eq child childns s1ns nn True show ?thesis
      by (simp add: create_list_Cons del: create_list.simps)
  next
    case False
    with rest obtain child' where
      cl: "create_list child xs kwargs = (Inr node, child')" and sf: "self' = setitem s1 x child'"
      by (auto split: prod.splits)
    have ih: "create_list child' xs kwargs' = (Inr node, child')"
      using Cons.IH [OF cl] .
    have c'ns: "is_PortNamespace child'"
      using create_list_is_namespace [of child xs kwargs] cl childns by simp
    have sfns: "is_PortNamespace self'"
      using sf s1ns by simp
    have idem: "setitem self' x child' = self'"
      using sf by simp
    have "contains self' x" "getitem self' x = Inr child'"
      using sf s1ns by simp_all
    with c'ns ih False idem show ?thesis
      by (simp add: create_list_Cons [OF sfns] del: create_list.simps)
  qed
qed

lemma create_list_leaf:
  "0 < k \<Longrightarrow> resolve self (take k segs) = Some q \<Longrightarrow> \<not> is_PortNamespace q
     \<Longrightarrow> \<exists>e. fst (create_list self segs kwargs) = Inl e"
proof (induction segs arbitrary: self k)
  case Nil
  then show ?case by simp
next
  case (Cons x xs)
  from Cons.prems(1) obtain k' where k: "k = Suc k'" by (cases k) auto
  from Cons.prems(2) k obtain n vt hp rq vd df dy ps c
    where self: "self = PortNamespace n vt hp rq vd df dy ps"
      and c: "map_of ps x = Some c" and r: "resolve c (take k' xs) = Some q"
    by (cases self) (auto split: option.splits)
  have ns: "is_PortNamespace self" using self by (simp add: is_PortNamespace_def)
  have cont: "contains self x" "getitem self x = Inr c"
    using self c by (simp_all add: contains_def getitem_def)
  show ?case
  proof (cases "is_PortNamespace c")
    case False
    with cont show ?thesis by (simp add: create_list_Cons [OF ns] del: create_list.simps)
  next
    case True
    with r Cons.prems(3) have k': "0 < k'" and xs: "xs \<noteq> []"
      by (cases k'; auto)+
    from Cons.IH [OF k' r Cons.prems(3)] obtain e child'
      where "create_list c xs kwargs = (Inl e, child')"
      by (cases "create_list c xs kwargs") auto
    with cont True xs show ?thesis
      by (simp add: create_list_Cons [OF ns] del: create_list.simps)
  qed
qed

lemma resolve_Cons:
  "is_PortNamespace self \<Longrightarrow>
   resolve self (x # xs) = (case getitem self x of Inl e \<Rightarrow> None | Inr c \<Rightarrow> resolve c xs)"
  by (cases self) (auto simp: is_PortNamespace_def getitem_def split: option.splits)

lemma create_list_resolve:
  "create_list self segs kwargs = (Inr node, self') \<Longrightarrow> resolve self' segs = Some node"
proof (induction segs arbitrary: self node self')
  case Nil
  then show ?case by simp
next
  case (Cons x xs)
  from Cons.prems obtain s1 child where
    ns: "is_PortNamespace self" and s1: "is_PortNamespace s1"
    and child: "getitem s1 x = Inr child"
    and rest: "(if xs \<noteq> [] then
                 (case create_list child xs kwargs of
                    (res, child') \<Rightarrow> (res, setitem s1 x child'))
               else (Inr child, s1)) = (Inr node, self')"
    by (rule create_list_ConsE)
  have ns': "is_PortNamespace self'"
    using create_list_is_namespace [of self "x # xs" kwargs] Cons.prems ns by simp
  show ?case
  proof (cases "xs = []")
    case True
    with rest child ns' show ?thesis by (simp add: resolve_Cons del: resolve.simps(2))
  next
    case False
    with rest obtain child' where
      cl: "create_list child xs kwargs = (Inr node, child')" and sf: "self' = setitem s1 x child'"
      by (auto split: prod.splits)
    have "getitem self' x = Inr child'" using sf s1 by simp
    with Cons.IH [OF cl] ns' show ?thesis by (simp add: resolve_Cons del: resolve.simps(2))
  qed
qed

lemma delete_absent: "map_of opts k = None \<Longrightarrow> AList.delete k opts = opts"
  by (induction opts) (auto split: if_splits)

lemma dict_get_delete [simp]:
  "k \<noteq> k' \<Longrightarrow> dict_get (AList.delete k opts) k' v = dict_get opts k' v"
  by (simp add: dict_get_def delete_conv')

lemma absorb_attrs_step:
  assumes "getattr other attr = Inr w"
    and "setattr self attr (dict_get opts attr w) = Inr self'"
  shows "absorb_attrs self other (attr # attrs) opts
           = absorb_attrs self' other attrs (AList.delete attr opts)"
proof (cases "map_of opts attr")
  case None
  with assms show ?thesis by (simp add: dict_get_def delete_absent)
next
  case (Some v)
  with assms show ?thesis by (simp add: dict_get_def)
qed

lemma absorb_attrs_all:
  fixes n vt hp rq vd df dy ps n' vt' hp' rq' vd' df' dy' ps' opts
  defines "other \<equiv> PortNamespace n' vt' hp' rq' vd' df' dy' ps'"
  shows "absorb_attrs (PortNamespace n vt hp rq vd df dy ps) other mutable_properties opts =
   (Inr (),
    PortNamespace n (dict_get opts ''valid_type'' vt') (dict_get opts ''help'' hp')
      (dict_get opts ''required'' rq') (dict_get opts ''validator'' vd')
      (dict_get opts ''default'' df')
      (PBool (dict_get opts ''valid_type'' vt' \<noteq> PNone)) ps,
    AList.delete ''validator'' (AList.delete ''valid_type'' (AList.delete ''required''
      (AList.delete ''help'' (AList.delete ''dynamic'' (AList.delete ''default'' opts))))))"
proof -
  let ?o1 = "AList.delete ''default'' opts"
  let ?o2 = "AList.delete ''dynamic'' ?o1"
  let ?o3 = "AList.delete ''help'' ?o2"
  let ?o4 = "AList.delete ''required'' ?o3"
  let ?o5 = "AList.delete ''valid_type'' ?o4"
  let ?o6 = "AList.delete ''validator'' ?o5"
  let ?s1 = "PortNamespace n vt hp rq vd (dict_get opts ''default'' df') dy ps"
  let ?s2 = "PortNamespace n vt hp rq vd (dict_get opts ''default'' df')
               (dict_get opts ''dynamic'' dy') ps"
  let ?s3 = "PortNamespace n vt (dict_get opts ''help'' hp') rq vd (dict_get opts ''default'' df')
               (dict_get opts ''dynamic'' dy') ps"
  let ?s4 = "PortNamespace n vt (dict_get opts ''help'' hp') (dict_get opts ''required'' rq') vd
               (dict_get opts ''default'' df') (dict_get opts ''dynamic'' dy') ps"
  let ?s5 = "PortNamespace n (dict_get opts ''valid_type'' vt') (dict_get opts ''help'' hp')
               (dict_get opts ''required'' rq') vd (dict_get opts ''default'' df')
               (PBool (dict_get opts ''valid_type'' vt' \<noteq> PNone)) ps"
  let ?s6 = "PortNamespace n (dict_get opts ''valid_type'' vt') (dict_get opts ''help'' hp')
               (dict_get opts ''required'' rq') (dict_get opts ''validator'' vd')
               (dict_get opts ''default'' df')
               (PBool (dict_get opts ''valid_type'' vt' \<noteq> PNone)) ps"
  have 1: "absorb_attrs (PortNamespace n vt hp rq vd df dy ps) other (''default'' # as) opts
             = absorb_attrs ?s1 other as ?o1" for as
    by (rule absorb_attrs_step [where w = df'])
       (simp_all add: other_def setattr_def is_PortNamespace_def)
  have 2: "absorb_attrs ?s1 other (''dynamic'' # as) ?o1 = absorb_attrs ?s2 other as ?o2" for as
    by (rule absorb_attrs_step [where w = dy'])
       (simp_all add: other_def setattr_def is_PortNamespace_def)
  have 3: "absorb_attrs ?s2 other (''help'' # as) ?o2 = absorb_attrs ?s3 other as ?o3" for as
    by (rule absorb_attrs_step [where w = hp'])
       (simp_all add: other_def setattr_def is_PortNamespace_def)
  have 4: "absorb_attrs ?s3 other (''required'' # as) ?o3 = absorb_attrs ?s4 other as ?o4" for as
    by (rule absorb_attrs_step [where w = rq'])
       (simp_all add: other_def setattr_def is_PortNamespace_def)
  have 5: "absorb_attrs ?s4 other (''valid_type'' # as) ?o4 = absorb_attrs ?s5 other as ?o5" for as
    by (rule absorb_attrs_step [where w = vt'])
       (simp_all add: other_def setattr_def is_PortNamespace_def)
  have 6: "absorb_attrs ?s5 other (''validator'' # as) ?o5 = absorb_attrs ?s6 other as ?o6" for as
    by (rule absorb_attrs_step [where w = vd'])
       (simp_all add: other_def setattr_def is_PortNamespace_def)
  show ?thesis
    unfolding mutable_properties_def
    by (simp only: 1 2 3 4 5 6 absorb_attrs.simps(1))
qed

lemma absorb_ports_attrs:
  "port_name (fst (absorb_ports self items acc)) = port_name self
   \<and> port_valid_type (fst (absorb_ports self items acc)) = port_valid_type self
   \<and> port_help (fst (absorb_ports self items acc)) = port_help self
   \<and> port_required (fst (absorb_ports self items acc)) = port_required self
   \<and> port_validator (fst (absorb_ports self items acc)) = port_validator self
   \<and> port_default (fst (absorb_ports self items acc)) = port_default self
   \<and> port_dynamic (fst (absorb_ports self items acc)) = port_dynamic self"
proof (induction items arbitrary: self acc)
  case Nil
  then show ?case by simp
next
  case (Cons a items)
  obtain k p where a: "a = (k, p)" by (cases a)
  show ?case using Cons [of "setitem self k p"] a by (cases self) simp_all
qed

lemma absorb_ports_keeps:
  "absorb_ports self items acc = (self', names)
     \<Longrightarrow> port_valid_type self' = port_valid_type self \<and> port_dynamic self' = port_dynamic self"
  using absorb_ports_attrs [of self items acc] by simp

lemma absorb_unfold:
  assumes "is_PortNamespace self" "is_PortNamespace other"
  shows "absorb self (PPort other) exclude include opts =
     (if remaining_options opts \<noteq> []
      then (Inl ValueError, absorbed_self self other opts, remaining_options opts)
      else
        (case filter_ports (port_ports other) exclude include of
           Inl e \<Rightarrow> (Inl e, absorbed_self self other opts, remaining_options opts)
         | Inr items \<Rightarrow>
             (case absorb_ports (absorbed_self self other opts) items [] of
                (self2, absorbed_ports) \<Rightarrow>
                  (Inr absorbed_ports, self2, remaining_options opts))))"
proof -
  obtain n vt hp rq vd df dy ps where s: "self = PortNamespace n vt hp rq vd df dy ps"
    using assms(1) by (cases self) (auto simp: is_PortNamespace_def)
  obtain n' vt' hp' rq' vd' df' dy' ps' where
    ot: "other = PortNamespace n' vt' hp' rq' vd' df' dy' ps'"
    using assms(2) by (cases other) (auto simp: is_PortNamespace_def)
  show ?thesis
    unfolding s ot absorb_def absorbed_self_def remaining_options_def port.sel
    by (simp add: absorb_attrs_all is_PortNamespace_def del: absorb_attrs.simps)
qed

lemma absorb_not_namespace:
  assumes "\<not> (\<exists>other. port_namespace = PPort other \<and> is_PortNamespace other)"
  shows "absorb self port_namespace exclude include opts
           = (if is_PortNamespace self then (Inl ValueError, self, opts)
              else (Inl AttributeError, self, opts))"
proof (cases port_namespace)
  case (PPort p)
  then have "\<not> is_PortNamespace p" using assms by simp
  then show ?thesis using PPort
    by (cases p) (simp_all add: absorb_def is_PortNamespace_def)
qed (simp_all add: absorb_def)

lemma absorb_not_self:
  "\<not> is_PortNamespace self
     \<Longrightarrow> absorb self port_namespace exclude include opts = (Inl AttributeError, self, opts)"
  by (simp add: absorb_def)

lemma get_list_complete:
  "\<forall>x\<in>set segs. x \<noteq> [] \<Longrightarrow> resolve self segs = Some q \<Longrightarrow> segs \<noteq> []
     \<Longrightarrow> get_list self segs = Inr q"
  by (induction segs arbitrary: self) (auto split: port.splits option.splits)

lemma deref_append_length [simp]: "deref (h @ [d]) (length h) = d"
  by (simp add: deref_def)

lemma dict_pop_store:
  "dict_pop h c k dflt = (v, h1)
     \<Longrightarrow> length h1 = length h \<and> (\<forall>a. a \<noteq> c \<longrightarrow> h1 ! a = h ! a)"
  by (auto simp: dict_pop_def split: option.splits)

lemma keeps_storeD:
  "keeps_store p \<Longrightarrow> validate env p h v = (r, h')
     \<Longrightarrow> length h \<le> length h' \<and> (\<forall>a<length h. h' ! a = h ! a)"
  unfolding keeps_store_def by blast

lemma validate_ports_store:
  assumes "\<forall>x\<in>set items. keeps_store (snd x)"
    and "validate_ports env items h c acc = (r, h')"
  shows "length h \<le> length h' \<and> (\<forall>a<length h. a \<noteq> c \<longrightarrow> h' ! a = h ! a)"
  using assms
proof (induction items arbitrary: h acc)
  case Nil
  then show ?case by simp
next
  case (Cons x items)
  obtain name port where x: "x = (name, port)" by (cases x)
  obtain v h1 where pop: "dict_pop h c name UNSPECIFIED = (v, h1)"
    by (cases "dict_pop h c name UNSPECIFIED")
  note st = dict_pop_store [OF pop]
  obtain r1 h2 where val: "validate env port h1 v = (r1, h2)"
    by (cases "validate env port h1 v")
  have kp: "keeps_store port" using Cons.prems(1) x by auto
  note k1 = keeps_storeD [OF kp val]
  have base: "length h \<le> length h2 \<and> (\<forall>a<length h. a \<noteq> c \<longrightarrow> h2 ! a = h ! a)"
    using st k1 by auto
  show ?case
  proof (cases "h' = h2")
    case True
    with base show ?thesis by simp
  next
    case False
    then obtain acc' where rec: "validate_ports env items h2 c acc' = (r, h')"
      using Cons.prems(2) x pop val
      by (auto split: sum.splits prod.splits if_splits)
    have "length h2 \<le> length h' \<and> (\<forall>a<length h2. a \<noteq> c \<longrightarrow> h' ! a = h2 ! a)"
      using Cons.IH [OF _ rec] Cons.prems(1) by simp
    with base show ?thesis by auto
  qed
qed

lemma size_child_less:
  "(name, p) \<in> set ps \<Longrightarrow> size p < size (PortNamespace n vt hp rq vd df dy ps)"
  by (induction ps) auto

lemma validate_keeps_store: "keeps_store self"
proof (induction self rule: measure_induct_rule [of size])
  case (less self)
  show ?case
  proof (cases self)
    case (PortNamespace n vt hp rq vd df dy ps)
    have kids: "\<forall>x\<in>set ps. keeps_store (snd x)"
      using less PortNamespace size_child_less by (metis prod.collapse)
    have vp: "\<And>env h c acc r h'. validate_ports env ps h c acc = (r, h')
        \<Longrightarrow> length h \<le> length h' \<and> (\<forall>a<length h. a \<noteq> c \<longrightarrow> h' ! a = h ! a)"
      using validate_ports_store [OF kids] by blast
    show ?thesis
      unfolding keeps_store_def
    proof (intro allI impI)
      fix env h v r h'
      assume val: "validate env self h v = (r, h')"
      consider (same) "h' = h" | (copy) d where "h' = h @ [d]"
        | (ports) d r2 where "validate_ports env ps (h @ [d]) (length h) result_ok = (r2, h')"
        using val PortNamespace
        by (subst (asm) validate.simps)
           (auto split: sum.splits prod.splits if_splits)
      then show "length h \<le> length h' \<and> (\<forall>a<length h. h' ! a = h ! a)"
      proof cases
        case same
        then show ?thesis by simp
      next
        case copy
        then show ?thesis by (simp add: nth_append)
      next
        case ports
        from vp [OF ports] show ?thesis by (auto simp: nth_append)
      qed
    qed
  qed (auto simp: keeps_store_def validate.simps)
qed

subsection \<open>Leaf validation\<close>




text \<open>
  C4 (as the code has it). The sentinel is the empty tuple: a value is taken as absent
  exactly when it is an empty tuple, so \<^verbatim>\<open>None\<close> is never taken as absent. For every
  other value the result of a leaf port's \<^verbatim>\<open>validate\<close> does not depend on \<^verbatim>\<open>required\<close>
  (the "required value missing" branch is not taken), while an empty tuple supplied to a
  required port is reported as missing.
\<close>

theorem UNSPECIFIED_is_empty_tuple:
  "(is_UNSPECIFIED v \<longleftrightarrow> v = PTuple [])
   \<and> \<not> is_UNSPECIFIED PNone
   \<and> (v \<noteq> PTuple [] \<longrightarrow>
        ValueSpec_validate env h (set_required p r) v = ValueSpec_validate env h p v)
   \<and> (truthy h (port_required p) \<longrightarrow>
        ValueSpec_validate env h p (PTuple []) = Inr (PTuple [PBool False, msg_required]))"
  by (auto simp: ValueSpec_validate_def is_UNSPECIFIED_def UNSPECIFIED_def
      split: sum.splits bool.splits)

theorem UNSPECIFIED_is_empty_tuple_witness:
  "PNone \<noteq> PTuple []
   \<and> ValueSpec_validate (\<lambda>f h args. Inr PNone) []
        (set_required (OutputPort (PStr ''out'') (PType TInt) PNone (PBool True) PNone)
           (PBool False)) PNone
       = ValueSpec_validate (\<lambda>f h args. Inr PNone) []
           (OutputPort (PStr ''out'') (PType TInt) PNone (PBool True) PNone) PNone
   \<and> truthy [] (port_required (OutputPort (PStr ''out'') (PType TInt) PNone (PBool True) PNone))
   \<and> ValueSpec_validate (\<lambda>f h args. Inr PNone) []
        (OutputPort (PStr ''out'') (PType TInt) PNone (PBool True) PNone) (PTuple [])
       = Inr (PTuple [PBool False, msg_required])"
  using UNSPECIFIED_is_empty_tuple [of PNone "\<lambda>f h args. Inr PNone" "[]"
      "OutputPort (PStr ''out'') (PType TInt) PNone (PBool True) PNone" "PBool False"]
  by simp

text \<open>The claim as first stated fails for an empty tuple that the caller supplies: a
  required port reports it as a missing value.\<close>

theorem UNSPECIFIED_counterexample:
  "ValueSpec_validate (\<lambda>f h args. Inr PNone) []
     (InputPort (PStr ''x'') (PType TTuple) PNone (PBool True) PNone UNSPECIFIED) (PTuple [])
   = Inr (PTuple [PBool False, msg_required])"
  by (simp add: ValueSpec_validate_def is_UNSPECIFIED_def UNSPECIFIED_def)

subsection \<open>InputPort construction\<close>

text \<open>
  C7. An \<^verbatim>\<open>InputPort\<close> constructed with a default (one that is not \<^verbatim>\<open>UNSPECIFIED\<close>)
  has \<^verbatim>\<open>required\<close> false whatever the caller passed; without a default the construction
  always succeeds and keeps the caller's \<^verbatim>\<open>required\<close>. A disagreement is only logged:
  the message is logged exactly when the caller's value is not the resulting one, and
  the outcome (the port built, or the exception raised) is the one obtained when the
  caller passes the resulting value itself.
\<close>

theorem InputPort_required_override:
  "(\<not> is_UNSPECIFIED dflt \<and> InputPort_init env h name vt hp dflt required vd = Inr (p, lg)
      \<longrightarrow> port_required p = PBool False)
   \<and> (is_UNSPECIFIED dflt
      \<longrightarrow> InputPort_init env h name vt hp dflt required vd
          = Inr (InputPort name vt hp required vd dflt, []))
   \<and> (InputPort_init env h name vt hp dflt required vd = Inr (p, lg)
      \<longrightarrow> lg = (if required \<noteq> required_override required dflt then [log_overridden] else []))
   \<and> map_sum id fst (InputPort_init env h name vt hp dflt required vd)
       = map_sum id fst
           (InputPort_init env h name vt hp dflt (required_override required dflt) vd)"
  by (auto simp: InputPort_init_def required_override_def Let_def
      split: sum.splits if_splits prod.splits)

theorem InputPort_required_override_witness:
  "\<not> is_UNSPECIFIED (PInt 5)
   \<and> InputPort_init (\<lambda>f h args. Inr PNone) [] (PStr ''n'') (PType TInt) PNone (PInt 5)
         (PBool True) PNone
       = Inr (InputPort (PStr ''n'') (PType TInt) PNone (PBool False) PNone (PInt 5),
              [log_overridden])
   \<and> port_required (InputPort (PStr ''n'') (PType TInt) PNone (PBool False) PNone (PInt 5))
       = PBool False
   \<and> InputPort_init (\<lambda>f h args. Inr PNone) [] (PStr ''x'') PNone PNone (PInt 5)
         (PBool True) (PType TInt)
       = Inr (InputPort (PStr ''x'') PNone PNone (PBool False) (PType TInt) (PInt 5),
              [log_overridden])
   \<and> is_UNSPECIFIED (PTuple [])
   \<and> InputPort_init (\<lambda>f h args. Inr PNone) [] (PStr ''n'') (PType TInt) PNone (PTuple [])
         (PBool True) PNone
       = Inr (InputPort (PStr ''n'') (PType TInt) PNone (PBool True) PNone (PTuple []), [])"
  using InputPort_required_override [of "PInt 5" "\<lambda>f h args. Inr PNone" "[]" "PStr ''n''"
      "PType TInt" PNone "PBool True" PNone
      "InputPort (PStr ''n'') (PType TInt) PNone (PBool False) PNone (PInt 5)" "[log_overridden]"]
    InputPort_required_override [of "PInt 5" "\<lambda>f h args. Inr PNone" "[]" "PStr ''x''"
      PNone PNone "PBool True" "PType TInt"
      "InputPort (PStr ''x'') PNone PNone (PBool False) (PType TInt) (PInt 5)" "[log_overridden]"]
    InputPort_required_override [of "PTuple []" "\<lambda>f h args. Inr PNone" "[]" "PStr ''n''"
      "PType TInt" PNone "PBool True" PNone]
  by (simp add: InputPort_init_def required_override_def is_UNSPECIFIED_def UNSPECIFIED_def
      ValueSpec_validate_def run_validator_def result_ok_def unpack2_def is_subclass_def)

subsection \<open>Path lookup\<close>

text \<open>
  C5 (as the code has it). For every tree and every dotted path whose segments are
  non-empty names, \<^verbatim>\<open>get_port\<close> of the path gives what the sequential single-level
  lookups give (the same node, or the same exception); when every segment exists it
  returns the node the segments lead to, and when a segment is missing it raises. For
  every path string, \<^verbatim>\<open>get_port\<close> returns a node only if that node is the one the whole
  list of segments leads to, and raises when a segment is missing; it raises for the
  empty string and for a name that is not a string.
\<close>

theorem get_port_sequential:
  "(segs \<noteq> [] \<and> (\<forall>x\<in>set segs. x \<noteq> [] \<and> NAMESPACE_SEPARATOR \<notin> set x) \<longrightarrow>
      get_port self (PStr (str_join NAMESPACE_SEPARATOR segs)) = get_port_seq self segs
      \<and> (resolve self segs = Some q
           \<longrightarrow> get_port self (PStr (str_join NAMESPACE_SEPARATOR segs)) = Inr q
               \<and> get_port_seq self segs = Inr q)
      \<and> (resolve self segs = None
           \<longrightarrow> (\<exists>e. get_port self (PStr (str_join NAMESPACE_SEPARATOR segs)) = Inl e)))
   \<and> (resolve self (str_split NAMESPACE_SEPARATOR s) \<noteq> Some q \<longrightarrow> get_port self (PStr s) \<noteq> Inr q)
   \<and> (resolve self (str_split NAMESPACE_SEPARATOR s) = None \<longrightarrow> (\<exists>e. get_port self (PStr s) = Inl e))
   \<and> (\<exists>e. get_port self (PStr []) = Inl e)
   \<and> ((\<forall>t. name \<noteq> PStr t) \<longrightarrow> (\<exists>e. get_port self name = Inl e))"
proof (intro conjI impI)
  assume a: "segs \<noteq> [] \<and> (\<forall>x\<in>set segs. x \<noteq> [] \<and> NAMESPACE_SEPARATOR \<notin> set x)"
  then have sp: "str_split NAMESPACE_SEPARATOR (str_join NAMESPACE_SEPARATOR segs) = segs"
    by (simp add: str_split_join)
  show eq: "get_port self (PStr (str_join NAMESPACE_SEPARATOR segs)) = get_port_seq self segs"
    using a sp get_list_seq [of segs self] by (simp add: get_port_eq_list)
  {
    assume r: "resolve self segs = Some q"
    show "get_port self (PStr (str_join NAMESPACE_SEPARATOR segs)) = Inr q"
      using a sp r get_list_complete [of segs self q] by (simp add: get_port_eq_list)
    then show "get_port_seq self segs = Inr q"
      using eq by simp
  }
  {
    assume "resolve self segs = None"
    then show "\<exists>e. get_port self (PStr (str_join NAMESPACE_SEPARATOR segs)) = Inl e"
      using sp get_list_resolve [of self segs]
      by (cases "get_port self (PStr (str_join NAMESPACE_SEPARATOR segs))")
         (auto simp: get_port_eq_list)
  }
next
  assume "resolve self (str_split NAMESPACE_SEPARATOR s) \<noteq> Some q"
  then show "get_port self (PStr s) \<noteq> Inr q"
    using get_list_resolve [of self "str_split NAMESPACE_SEPARATOR s" q]
    by (auto simp: get_port_eq_list)
next
  assume "resolve self (str_split NAMESPACE_SEPARATOR s) = None"
  then show "\<exists>e. get_port self (PStr s) = Inl e"
    using get_list_resolve [of self "str_split NAMESPACE_SEPARATOR s"]
    by (cases "get_port self (PStr s)") (auto simp: get_port_eq_list)
next
  show "\<exists>e. get_port self (PStr []) = Inl e"
    by (cases self) (simp_all add: get_port.simps)
next
  assume "\<forall>t. name \<noteq> PStr t"
  then show "\<exists>e. get_port self name = Inl e"
    by (cases self; cases name) (simp_all add: get_port.simps)
qed

theorem get_port_sequential_witness:
  "resolve example_tree [''a'', ''b'', ''c''] = Some example_leaf
   \<and> get_port example_tree (PStr ''a.b.c'') = Inr example_leaf
   \<and> get_port_seq example_tree [''a'', ''b'', ''c''] = Inr example_leaf
   \<and> resolve example_tree [''a'', ''x'', ''c''] = None
   \<and> get_port example_tree (PStr ''a.x.c'') = Inl ValueError
   \<and> get_port_seq example_tree [''a'', ''x'', ''c''] = Inl ValueError
   \<and> get_port example_tree (PStr ''a.b'') \<noteq> Inr example_leaf
   \<and> get_port example_tree (PInt 3) = Inl ValueError"
  using get_port_sequential [of "[''a'', ''b'', ''c'']" example_tree example_leaf "''a.x.c''" "PInt 3"]
    get_port_sequential [of "[''a'', ''x'', ''c'']" example_tree example_leaf "''a.b''" "PInt 3"]
  by (simp add: example_tree_def example_leaf_def NAMESPACE_SEPARATOR_def get_port_eq_list
      get_port.simps [of _ "PInt 3"])

text \<open>The claim as first stated, for every tree in which the three children exist, fails
  when a segment is the empty string. The tree below is the one
  \<^verbatim>\<open>create_port_namespace(\<close>\<^verbatim>\<open>"a..c")\<close> builds on an empty namespace: the dotted lookup
  finds the node, while the sequential lookups raise at \<^verbatim>\<open>get_port("")\<close>.\<close>

theorem get_port_sequential_counterexample:
  "snd (create_port_namespace example_root (PStr ''a..c'') []) = example_dotted
   \<and> resolve example_dotted [''a'', [], ''c'']
       = Some (PortNamespace (PStr ''c'') PNone PNone (PBool True) PNone UNSPECIFIED (PBool False) [])
   \<and> get_port example_dotted (PStr ''a..c'')
       = Inr (PortNamespace (PStr ''c'') PNone PNone (PBool True) PNone UNSPECIFIED (PBool False) [])
   \<and> get_port_seq example_dotted [''a'', [], ''c''] = Inl ValueError"
  by (simp add: create_port_namespace_eq_list get_port_eq_list NAMESPACE_SEPARATOR_def
      example_root_def example_dotted_def PortNamespace_new_bare_def PortNamespace_new_def
      PortNamespace_init_def contains_def getitem_def is_PortNamespace_def dict_get_def)

subsection \<open>Path creation\<close>

text \<open>
  C6. When \<^verbatim>\<open>create_port_namespace(path, **schema)\<close> returns a node, a second call with
  the same path returns the same node and leaves the whole tree as the first call left
  it, whatever schema arguments the second call passes; the node returned is the one the
  path leads to. When some segment of the path is occupied by a port that is not a
  namespace, the call raises.
\<close>

theorem create_port_namespace_idempotent:
  "(create_port_namespace self (PStr s) kwargs = (Inr node, self')
      \<longrightarrow> create_port_namespace self' (PStr s) kwargs' = (Inr node, self')
          \<and> resolve self' (str_split NAMESPACE_SEPARATOR s) = Some node)
   \<and> (0 < k \<and> resolve self (take k (str_split NAMESPACE_SEPARATOR s)) = Some q
         \<and> \<not> is_PortNamespace q
      \<longrightarrow> (\<exists>e. fst (create_port_namespace self (PStr s) kwargs) = Inl e))"
  using create_list_idempotent [of self "str_split NAMESPACE_SEPARATOR s" kwargs node self' kwargs']
    create_list_resolve [of self "str_split NAMESPACE_SEPARATOR s" kwargs node self']
    create_list_leaf [of k self "str_split NAMESPACE_SEPARATOR s" q kwargs]
  by (simp add: create_port_namespace_eq_list)

theorem create_port_namespace_idempotent_witness:
  "create_port_namespace example_root (PStr ''x.y'') [(''required'', PBool False)]
     = (Inr (PortNamespace (PStr ''y'') PNone PNone (PBool False) PNone UNSPECIFIED (PBool False) []),
        PortNamespace PNone PNone PNone (PBool True) PNone UNSPECIFIED (PBool False)
          [(''x'', PortNamespace (PStr ''x'') PNone PNone (PBool True) PNone UNSPECIFIED (PBool False)
             [(''y'', PortNamespace (PStr ''y'') PNone PNone (PBool False) PNone UNSPECIFIED
                        (PBool False) [])])])
   \<and> create_port_namespace
        (PortNamespace PNone PNone PNone (PBool True) PNone UNSPECIFIED (PBool False)
          [(''x'', PortNamespace (PStr ''x'') PNone PNone (PBool True) PNone UNSPECIFIED (PBool False)
             [(''y'', PortNamespace (PStr ''y'') PNone PNone (PBool False) PNone UNSPECIFIED
                        (PBool False) [])])])
        (PStr ''x.y'') [(''required'', PBool False)]
     = (Inr (PortNamespace (PStr ''y'') PNone PNone (PBool False) PNone UNSPECIFIED (PBool False) []),
        PortNamespace PNone PNone PNone (PBool True) PNone UNSPECIFIED (PBool False)
          [(''x'', PortNamespace (PStr ''x'') PNone PNone (PBool True) PNone UNSPECIFIED (PBool False)
             [(''y'', PortNamespace (PStr ''y'') PNone PNone (PBool False) PNone UNSPECIFIED
                        (PBool False) [])])])
   \<and> (0::nat) < 3
   \<and> resolve example_tree (take 3 (str_split NAMESPACE_SEPARATOR ''a.b.c.d'')) = Some example_leaf
   \<and> \<not> is_PortNamespace example_leaf
   \<and> (\<exists>e. fst (create_port_namespace example_tree (PStr ''a.b.c.d'') []) = Inl e)"
  using create_port_namespace_idempotent [where self = example_root and s = "''x.y''"
      and kwargs = "[(''required'', PBool False)]" and kwargs' = "[(''required'', PBool False)]"
      and node = "PortNamespace (PStr ''y'') PNone PNone (PBool False) PNone UNSPECIFIED
                    (PBool False) []"
      and self' = "PortNamespace PNone PNone PNone (PBool True) PNone UNSPECIFIED (PBool False)
          [(''x'', PortNamespace (PStr ''x'') PNone PNone (PBool True) PNone UNSPECIFIED (PBool False)
             [(''y'', PortNamespace (PStr ''y'') PNone PNone (PBool False) PNone UNSPECIFIED
                        (PBool False) [])])]"]
    create_port_namespace_idempotent [where self = example_tree and s = "''a.b.c.d''"
      and kwargs = "[]" and k = 3 and q = example_leaf]
  by (simp add: create_port_namespace_eq_list NAMESPACE_SEPARATOR_def example_root_def
      example_tree_def example_leaf_def PortNamespace_new_bare_def PortNamespace_new_def
      PortNamespace_init_def contains_def getitem_def is_PortNamespace_def dict_get_def)

subsection \<open>Absorbing a namespace\<close>

text \<open>
  C2 (as the code has it). \<^verbatim>\<open>absorb\<close> called with a non-empty \<^verbatim>\<open>exclude\<close> and an
  \<^verbatim>\<open>include\<close> that is not \<^verbatim>\<open>None\<close> always raises, and when it raises no child port of
  \<^verbatim>\<open>self\<close> has been changed. The mutable properties, however, have been overwritten by
  then: when the argument is a \<^verbatim>\<open>PortNamespace\<close>, each of them holds the override from
  \<^verbatim>\<open>namespace_options\<close> when there is one and the other namespace's value otherwise
  (\<^verbatim>\<open>dynamic\<close> being whether \<^verbatim>\<open>valid_type\<close> is not \<^verbatim>\<open>None\<close>).
\<close>

theorem absorb_exclude_include:
  "exclude \<noteq> [] \<and> include \<noteq> None \<longrightarrow>
     (\<exists>e. fst (absorb self port_namespace exclude include opts) = Inl e)
     \<and> port_ports (fst (snd (absorb self port_namespace exclude include opts))) = port_ports self
     \<and> (is_PortNamespace self \<and> port_namespace = PPort other \<and> is_PortNamespace other \<longrightarrow>
          fst (snd (absorb self port_namespace exclude include opts))
            = absorbed_self self other opts)"
proof (cases "is_PortNamespace self")
  case False
  then show ?thesis by (simp add: absorb_not_self)
next
  case True
  show ?thesis
  proof (cases "\<exists>other. port_namespace = PPort other \<and> is_PortNamespace other")
    case False
    then show ?thesis using True by (auto simp: absorb_not_namespace)
  next
    case ex: True
    then obtain o' where o': "port_namespace = PPort o'" "is_PortNamespace o'" by blast
    show ?thesis
      using o' True
      by (auto simp: absorb_unfold filter_ports_def absorbed_self_def)
  qed
qed

theorem absorb_exclude_include_witness:
  "[''c''] \<noteq> [] \<and> Some [''c''] \<noteq> None
   \<and> fst (absorb example_root (PPort example_other) [''c''] (Some [''c'']) []) = Inl ValueError
   \<and> port_ports (fst (snd (absorb example_root (PPort example_other) [''c''] (Some [''c'']) [])))
       = port_ports example_root
   \<and> is_PortNamespace example_root \<and> is_PortNamespace example_other
   \<and> fst (snd (absorb example_root (PPort example_other) [''c''] (Some [''c'']) []))
       = absorbed_self example_root example_other []"
  using absorb_exclude_include [of "[''c'']" "Some [''c'']" example_root "PPort example_other" "[]"
      example_other]
  by (simp add: example_root_def example_other_def PortNamespace_new_bare_def
      PortNamespace_init_def is_PortNamespace_def absorb_unfold remaining_options_def
      filter_ports_def)

text \<open>The claim as first stated (\<^verbatim>\<open>self\<close> completely unchanged when the error is raised)
  fails: absorbing a namespace that is not required into a required one, with both
  \<^verbatim>\<open>exclude\<close> and \<^verbatim>\<open>include\<close> given, raises and leaves \<^verbatim>\<open>self\<close> not required.\<close>

theorem absorb_exclude_include_counterexample:
  "fst (absorb example_root (PPort example_other) [''c''] (Some [''c'']) []) = Inl ValueError
   \<and> port_required example_root = PBool True
   \<and> port_required (fst (snd (absorb example_root (PPort example_other) [''c''] (Some [''c'']) [])))
       = PBool False
   \<and> fst (snd (absorb example_root (PPort example_other) [''c''] (Some [''c'']) []))
       \<noteq> example_root"
  by (simp add: example_root_def example_other_def PortNamespace_new_bare_def
      PortNamespace_init_def is_PortNamespace_def absorb_unfold remaining_options_def
      filter_ports_def absorbed_self_def dict_get_def)

text \<open>
  C10. After every \<^verbatim>\<open>absorb\<close> that returns, the \<^verbatim>\<open>valid_type\<close> of \<^verbatim>\<open>self\<close> is the one of
  \<^verbatim>\<open>namespace_options\<close> when it has one and the one of the absorbed namespace otherwise,
  and \<^verbatim>\<open>dynamic\<close> is whether that \<^verbatim>\<open>valid_type\<close> is not \<^verbatim>\<open>None\<close>: an explicit \<^verbatim>\<open>dynamic\<close>
  in \<^verbatim>\<open>namespace_options\<close> and the \<^verbatim>\<open>dynamic\<close> of the absorbed namespace are overridden.
\<close>

theorem absorb_dynamic:
  "fst (absorb self port_namespace exclude include opts) = Inr names \<longrightarrow>
     (\<exists>other. port_namespace = PPort other
        \<and> port_valid_type (fst (snd (absorb self port_namespace exclude include opts)))
            = dict_get opts ''valid_type'' (port_valid_type other)
        \<and> port_dynamic (fst (snd (absorb self port_namespace exclude include opts)))
            = PBool (dict_get opts ''valid_type'' (port_valid_type other) \<noteq> PNone))"
proof (cases "is_PortNamespace self")
  case False
  then show ?thesis by (simp add: absorb_not_self)
next
  case True
  show ?thesis
  proof (cases "\<exists>other. port_namespace = PPort other \<and> is_PortNamespace other")
    case False
    then show ?thesis using True by (auto simp: absorb_not_namespace)
  next
    case ex: True
    then obtain o' where o': "port_namespace = PPort o'" "is_PortNamespace o'" by blast
    show ?thesis
      using o' True
      by (auto simp: absorb_unfold absorbed_self_def split: if_splits sum.splits prod.splits
          dest!: absorb_ports_keeps)
  qed
qed

theorem absorb_dynamic_witness:
  "absorb example_root (PPort example_other) [] None [(''dynamic'', PBool False)]
     = (Inr [''c''],
        PortNamespace PNone (PType TInt) (PStr ''inputs of sub'') (PBool False) PNone UNSPECIFIED
          (PBool True) [(''c'', example_leaf)],
        [])
   \<and> dict_get [(''dynamic'', PBool False)] ''valid_type'' (port_valid_type example_other)
       = PType TInt"
  using absorb_dynamic [of example_root "PPort example_other" "[]" None
      "[(''dynamic'', PBool False)]" "[''c'']"]
  by (simp add: example_root_def example_other_def PortNamespace_new_bare_def
      PortNamespace_init_def is_PortNamespace_def absorb_unfold remaining_options_def
      filter_ports_def absorbed_self_def dict_get_def)

subsection \<open>Projection\<close>

text \<open>
  C3 (the code at an input where it departs from the claim). The schema has a child
  namespace \<^verbatim>\<open>a\<close> that declares \<^verbatim>\<open>b\<close>. The values hold a plain dictionary under \<^verbatim>\<open>a\<close>
  with the keys \<^verbatim>\<open>b\<close> and \<^verbatim>\<open>extra\<close>, and an undeclared key \<^verbatim>\<open>top\<close>. \<^verbatim>\<open>project\<close> drops
  \<^verbatim>\<open>top\<close> and keeps \<^verbatim>\<open>a\<close>, but it stores the nested dictionary as it is, \<^verbatim>\<open>extra\<close>
  included, because it recurses only when the value is a \<^verbatim>\<open>PortNamespace\<close> instance; the
  child namespace's own \<^verbatim>\<open>project\<close> would have given the dictionary with \<^verbatim>\<open>b\<close> alone.
\<close>

theorem project_nested_dict:
  "project example_tree []
     (PDict [(''a'', PDict [(''b'', PInt 5), (''extra'', PInt 1)]), (''top'', PInt 2)])
     = Inr (PDict [(''a'', PDict [(''b'', PInt 5), (''extra'', PInt 1)])])
   \<and> (case getitem example_tree ''a'' of
         Inl e \<Rightarrow> False
       | Inr child \<Rightarrow> is_PortNamespace child)
   \<and> (case getitem example_tree ''a'' of
         Inl e \<Rightarrow> Inl e
       | Inr child \<Rightarrow> project child [] (PDict [(''b'', PInt 5), (''extra'', PInt 1)]))
       = Inr (PDict [(''b'', PInt 5)])"
  by (simp add: project.simps example_tree_def is_PortNamespace_def contains_def getitem_def)

subsection \<open>Namespace validation\<close>

text \<open>
  C8. \<^verbatim>\<open>validate\<close> never changes the caller's mapping: whatever it returns or raises,
  every dictionary object that existed before the call has the entries it had (the
  store after the call is the store before it, followed by the working copies), so the
  mapping passed by reference has the same keys and values as before.
\<close>

theorem validate_keeps_values:
  "take (length h) (snd (validate env self h port_values)) = h
   \<and> (port_values = PRef a \<and> a < length h
        \<longrightarrow> deref (snd (validate env self h port_values)) a = deref h a)"
proof -
  obtain r h' where v: "validate env self h port_values = (r, h')"
    by (cases "validate env self h port_values")
  from keeps_storeD [OF validate_keeps_store v]
  have k: "length h \<le> length h'" "\<And>a. a < length h \<Longrightarrow> h' ! a = h ! a"
    by auto
  have "take (length h) h' = h"
    using k by (intro nth_equalityI) simp_all
  moreover have "a < length h \<Longrightarrow> deref h' a = deref h a"
    using k by (simp add: deref_def)
  ultimately show ?thesis using v by auto
qed

theorem validate_keeps_values_witness:
  "(0::nat) < length [[(''n'', PInt 5), (''extra'', PInt 1)]]
   \<and> validate (\<lambda>f h args. Inr PNone) example_inputs [[(''n'', PInt 5), (''extra'', PInt 1)]]
        (PRef 0)
       = (Inr (PTuple [PBool False, msg_unexpected]),
          [[(''n'', PInt 5), (''extra'', PInt 1)], [(''extra'', PInt 1)]])
   \<and> deref (snd (validate (\<lambda>f h args. Inr PNone) example_inputs
                   [[(''n'', PInt 5), (''extra'', PInt 1)]] (PRef 0))) 0
       = [(''n'', PInt 5), (''extra'', PInt 1)]
   \<and> validate (\<lambda>f h args. Inr PNone) example_inputs [[(''n'', PInt 5)]] (PRef 0)
       = (Inr (PTuple [PBool True, PNone]), [[(''n'', PInt 5)], []])"
  using validate_keeps_values [of "[[(''n'', PInt 5), (''extra'', PInt 1)]]"
      "\<lambda>f h args. Inr PNone" example_inputs "PRef 0" 0]
  by (simp add: validate.simps example_inputs_def py_dict_def deref_def dict_pop_def
      ValueSpec_validate_def run_validator_def is_UNSPECIFIED_def UNSPECIFIED_def result_ok_def
      unpack2_def is_subclass_def validate_dynamic_ports_def)




end
